theory Spec2Isabelle
  imports Complex_Main "HOL-Library.Multiset"
begin

section \<open>The theme service: color themes and file icon sets\<close>

text \<open>
  A shallow embedding of \<^verbatim>\<open>src/vs/workbench/services/themes/electron-browser/themeService.ts\<close>.
  Strings are lists of code units; the model covers code units below 256, where a
  \<^typ>\<open>char\<close> is one code unit. JavaScript numbers are modelled exactly (integers and
  rationals) with \<open>None\<close> for \<^verbatim>\<open>NaN\<close>: the only arithmetic of the file is on bytes,
  the quotient of a byte by 255, and halving.
\<close>

subsection \<open>String primitives of the host language\<close>

text \<open>\<^verbatim>\<open>str.split(c)\<close> for a one-character separator: never returns the empty array.\<close>

fun split :: "char \<Rightarrow> string \<Rightarrow> string list" where
  "split c [] = [[]]"
| "split c (x # xs) =
     (if x = c then [] # split c xs
      else (case split c xs of [] \<Rightarrow> [[x]] | w # ws \<Rightarrow> (x # w) # ws))"

text \<open>\<^verbatim>\<open>xs.join(sep)\<close>.\<close>

fun join :: "string \<Rightarrow> string list \<Rightarrow> string" where
  "join sep [] = []"
| "join sep [x] = x"
| "join sep (x # y # ys) = x @ sep @ join sep (y # ys)"

text \<open>White space and line terminators of the language below code unit 256.\<close>

definition isWhiteSpace :: "char \<Rightarrow> bool" where
  "isWhiteSpace c \<longleftrightarrow> c \<in> set [CHR 0x09, CHR 0x0A, CHR 0x0B, CHR 0x0C, CHR 0x0D, CHR 0x20, CHR 0xA0]"

definition trim :: "string \<Rightarrow> string" where
  "trim s = rev (dropWhile isWhiteSpace (rev (dropWhile isWhiteSpace s)))"

text \<open>\<^verbatim>\<open>str.replace(/ /g, '.')\<close>.\<close>

definition replaceSpaces :: "string \<Rightarrow> string" where
  "replaceSpaces s = map (\<lambda>c. if c = CHR '' '' then CHR ''.'' else c) s"

text \<open>\<^verbatim>\<open>str.toLowerCase()\<close> on code units below 256.\<close>

definition lowerChar :: "char \<Rightarrow> char" where
  "lowerChar c =
     (let n = of_char c :: nat
      in if 65 \<le> n \<and> n \<le> 90 then char_of (n + 32)
         else if n = 215 then c
         else if 192 \<le> n \<and> n \<le> 222 then char_of (n + 32)
         else c)"

definition toLowerCase :: "string \<Rightarrow> string" where
  "toLowerCase s = map lowerChar s"

text \<open>\<^verbatim>\<open>str.substr(start, len)\<close> for non-negative arguments.\<close>

definition substr :: "string \<Rightarrow> nat \<Rightarrow> nat \<Rightarrow> string" where
  "substr s start len = take len (drop start s)"

text \<open>Decimal rendering of a number with an integer value.\<close>

fun digitChar :: "nat \<Rightarrow> char" where
  "digitChar n = char_of (48 + n)"

fun showNat :: "nat \<Rightarrow> string" where
  "showNat n = (if n < 10 then [digitChar n] else showNat (n div 10) @ [digitChar (n mod 10)])"

declare showNat.simps [simp del]

definition showInt :: "int \<Rightarrow> string" where
  "showInt i = (if i < 0 then CHR ''-'' # showNat (nat (- i)) else showNat (nat i))"

subsection \<open>\<^verbatim>\<open>parseInt\<close>\<close>

definition digitValue :: "char \<Rightarrow> nat option" where
  "digitValue c =
     (let n = of_char c :: nat
      in if 48 \<le> n \<and> n \<le> 57 then Some (n - 48)
         else if 97 \<le> n \<and> n \<le> 122 then Some (n - 87)
         else if 65 \<le> n \<and> n \<le> 90 then Some (n - 55)
         else None)"

definition isDigitIn :: "nat \<Rightarrow> char \<Rightarrow> bool" where
  "isDigitIn radix c = (case digitValue c of None \<Rightarrow> False | Some d \<Rightarrow> d < radix)"

text \<open>
  \<^verbatim>\<open>parseInt(str)\<close> without a radix: leading white space is skipped, then a sign, then
  a \<^verbatim>\<open>0x\<close> prefix selects radix 16 (radix 10 otherwise); the value is that of the longest
  prefix of digits, and \<^verbatim>\<open>NaN\<close> (\<open>None\<close>) when that prefix is empty.
\<close>

definition parseInt :: "string \<Rightarrow> int option" where
  "parseInt str =
     (let s1 = dropWhile isWhiteSpace str;
          sign = (if take 1 s1 = ''-'' then - 1 else 1 :: int);
          s2 = (if take 1 s1 = ''-'' \<or> take 1 s1 = ''+'' then drop 1 s1 else s1);
          hex = (take 2 s2 = ''0x'' \<or> take 2 s2 = ''0X'');
          radix = (if hex then 16 else 10 :: nat);
          s3 = (if hex then drop 2 s2 else s2);
          ds = takeWhile (isDigitIn radix) s3
      in if ds = [] then None
         else Some (sign * int (foldl (\<lambda>acc c. acc * radix + the (digitValue c)) 0 ds)))"

subsection \<open>The class \<^verbatim>\<open>Color\<close>\<close>

record RGBA =
  r :: "int option"
  g :: "int option"
  b :: "int option"
  a :: "rat option"

definition parseHex :: "string \<Rightarrow> int option" where
  "parseHex str = parseInt (''0x'' @ str)"

definition Color_parse :: "string \<Rightarrow> RGBA" where
  "Color_parse color =
     (if take 1 color = ''#'' \<and> length color \<ge> 7 then
        \<lparr> r = parseHex (substr color 1 2),
          g = parseHex (substr color 3 2),
          b = parseHex (substr color 5 2),
          a = (if length color = 9
               then map_option (\<lambda>v. of_int v / 255) (parseHex (substr color 7 2))
               else Some 1) \<rparr>
      else \<lparr> r = Some 255, g = Some 0, b = Some 0, a = Some 1 \<rparr>)"

text \<open>
  \<^verbatim>\<open>+x.toFixed(2)\<close> rendered as text: the number is rounded to hundredths (half away
  from zero), and printed without trailing zeros.
\<close>

definition showHundredths :: "int \<Rightarrow> string" where
  "showHundredths h =
     (let m = nat \<bar>h\<bar>; whole = m div 100; frac = m mod 100
      in (if h < 0 then ''-'' else '''') @ showNat whole @
         (if frac = 0 then ''''
          else if frac mod 10 = 0 then CHR ''.'' # [digitChar (frac div 10)]
          else CHR ''.'' # [digitChar (frac div 10), digitChar (frac mod 10)]))"

definition toFixed2 :: "rat \<Rightarrow> int" where
  "toFixed2 x = (if x < 0 then - \<lfloor>- x * 100 + 1 / 2\<rfloor> else \<lfloor>x * 100 + 1 / 2\<rfloor>)"

definition showChannel :: "int option \<Rightarrow> string" where
  "showChannel v = (case v of None \<Rightarrow> ''NaN'' | Some i \<Rightarrow> showInt i)"

definition showAlpha :: "rat option \<Rightarrow> string" where
  "showAlpha v = (case v of None \<Rightarrow> ''NaN'' | Some x \<Rightarrow> showHundredths (toFixed2 x))"

definition Color_toString :: "RGBA \<Rightarrow> string" where
  "Color_toString p =
     ''rgba('' @ showChannel (r p) @ '', '' @ showChannel (g p) @ '', '' @ showChannel (b p) @
     '', '' @ showAlpha (a p) @ '')''"

definition transparent :: "RGBA \<Rightarrow> rat \<Rightarrow> RGBA" where
  "transparent p factor = p \<lparr> a := map_option (\<lambda>x. x * factor) (a p) \<rparr>"

definition opposite :: "RGBA \<Rightarrow> RGBA" where
  "opposite p =
     \<lparr> r = map_option (\<lambda>x. 255 - x) (r p),
       g = map_option (\<lambda>x. 255 - x) (g p),
       b = map_option (\<lambda>x. 255 - x) (b p),
       a = a p \<rparr>"

subsection \<open>Data model\<close>

text \<open>
  An object read from a theme file is an association list of its own properties in
  insertion order, with distinct keys. A property that may be missing is an \<open>option\<close>;
  \<open>None\<close> is \<^verbatim>\<open>undefined\<close>. The declared interfaces give the types of the present
  properties. An element of a \<^verbatim>\<open>settings\<close> array can be \<^verbatim>\<open>undefined\<close> or
  \<^verbatim>\<open>null\<close> (\<open>None\<close>), on which every property access throws.
\<close>

datatype error = TypeError | IOError | ParseError "string list" | LoadError string

type_synonym ThemeSettingStyle = "(string \<times> string) list"

datatype scopeValue = ScopeString string | ScopeArray "string list"

record ThemeSetting =
  name :: "string option"
  scope :: "scopeValue option"
  settings :: "ThemeSettingStyle option"

record ThemeDocument =
  doc_name :: string
  doc_include :: "string option"
  doc_settings :: "ThemeSetting option list option"

record FileIconDefinition =
  iconPath :: "string option"

record FileIconsAssociation =
  folder :: "string option"
  file_icon :: "string option"
  folderExpanded :: "string option"
  fileExtensions :: "(string \<times> string) list option"
  fileNames :: "(string \<times> string) list option"
  languageIds :: "(string \<times> string) list option"

record FileIconsDocument = FileIconsAssociation +
  iconDefinitions :: "(string \<times> FileIconDefinition) list option"
  light :: "FileIconsAssociation option"
  highContrast :: "FileIconsAssociation option"

record IInternalThemeData =
  theme_id :: string
  label :: string
  description :: "string option"
  path :: string
  extensionId :: string
  styleSheetContent :: "string option"

text \<open>
  A contribution as the extension declares it (\<^verbatim>\<open>IThemeExtensionPoint\<close>). The
  registration tests \<^verbatim>\<open>path\<close> and \<^verbatim>\<open>id\<close> for being strings, so each is a missing
  property, a value that is not a string (kept as the text \<^verbatim>\<open>String\<close> gives for it), or
  a string.
\<close>

datatype declared = Absent | NonString string | StringValue string

record IThemeExtensionPoint =
  ep_id :: declared
  ep_label :: "string option"
  ep_description :: "string option"
  ep_path :: declared
  ep_uiTheme :: "string option"

text \<open>A message to the collector: the key of the localized text and its arguments.\<close>

datatype collectorMessage = CollectorError string "string list" | CollectorWarn string "string list"

record IExtensionDescription =
  ext_id :: string
  ext_name :: string
  isBuiltin :: bool
  publisher :: string

text \<open>
  The modules the file imports and the browser interfaces it calls are parameters of the
  model: the two functions of \<^verbatim>\<open>vs/platform/theme/common/themes\<close>, the path functions,
  \<^verbatim>\<open>CSS.escape\<close>, the file system (\<open>None\<close> is a failed read) and the two parsers, each
  returning its diagnostics with the parsed value.
\<close>

record host =
  getBaseThemeId :: "string \<Rightarrow> string"
  getSyntaxThemeId :: "string \<Rightarrow> string"
  extname :: "string \<Rightarrow> string"
  dirname :: "string \<Rightarrow> string"
  joinPath :: "string \<Rightarrow> string \<Rightarrow> string"
  normalize :: "string \<Rightarrow> string"
  basename :: "string \<Rightarrow> string"
  escapeCSS :: "string \<Rightarrow> string"
  readFile :: "string \<Rightarrow> string option"
  parseThemeJson :: "string \<Rightarrow> string list \<times> ThemeDocument"
  parsePlist :: "string \<Rightarrow> string list \<times> ThemeDocument"
  parseFileIconsJson :: "string \<Rightarrow> string list \<times> FileIconsDocument"
  getExtensionDescription :: "string \<Rightarrow> IExtensionDescription option"

text \<open>Truthiness of a string-valued property: present and not empty.\<close>

definition truthy :: "string option \<Rightarrow> bool" where
  "truthy v = (case v of None \<Rightarrow> False | Some s \<Rightarrow> s \<noteq> [])"

text \<open>Truthiness of \<^verbatim>\<open>scope\<close>: every array is truthy, also the empty one.\<close>

definition scopeTruthy :: "scopeValue option \<Rightarrow> bool" where
  "scopeTruthy v = (case v of None \<Rightarrow> False | Some (ScopeString s) \<Rightarrow> s \<noteq> [] | Some (ScopeArray xs) \<Rightarrow> True)"

subsection \<open>\<^verbatim>\<open>_settingsToStatements\<close>\<close>

definition fontStyleSegment :: "string list \<Rightarrow> string \<Rightarrow> string list" where
  "fontStyleSegment statements s =
     (if s = ''italic'' then statements @ [''font-style: italic;'']
      else if s = ''bold'' then statements @ [''font-weight: bold;'']
      else if s = ''underline'' then statements @ [''text-decoration: underline;'']
      else statements)"

definition settingStatement :: "string list \<Rightarrow> string \<times> string \<Rightarrow> string list" where
  "settingStatement statements kv =
     (case kv of (settingName, val) \<Rightarrow>
        if settingName = ''foreground''
          then statements @ [''color: '' @ Color_toString (Color_parse val) @ '';'']
        else if settingName = ''background'' then statements
        else if settingName = ''fontStyle''
          then foldl fontStyleSegment statements (split CHR '' '' val)
        else statements)"

text \<open>
  The \<^verbatim>\<open>for ... in\<close> loop visits integer-like keys first; no such key is a case of the
  \<^verbatim>\<open>switch\<close>, and the other keys come in insertion order.
\<close>

definition settingsStatements :: "ThemeSettingStyle \<Rightarrow> string list" where
  "settingsStatements st = foldl settingStatement [] st"

definition settingsToStatements :: "ThemeSettingStyle \<Rightarrow> string" where
  "settingsToStatements st = join '' '' (settingsStatements st)"

subsection \<open>\<^verbatim>\<open>_processThemeObject\<close>\<close>

text \<open>The rules pushed for one entry in the \<^verbatim>\<open>else\<close> branch of the loop body.\<close>

definition entryRules :: "string \<Rightarrow> ThemeSetting \<Rightarrow> string list" where
  "entryRules themeSelector s =
     (if scopeTruthy (scope s) \<and> settings s \<noteq> None then
        (let rules = (case the (scope s) of ScopeArray xs \<Rightarrow> xs | ScopeString str \<Rightarrow> split CHR '','' str);
             statements = settingsToStatements (the (settings s))
         in map (\<lambda>rule. ''.monaco-editor.'' @ themeSelector @ '' .token.'' @
                          replaceSpaces (trim rule) @ '' { '' @ statements @ '' }'') rules)
      else [])"

text \<open>
  \<^verbatim>\<open>themeSettings.forEach\<close>: the state is the rule list and the editor settings
  (\<open>None\<close> once an entry without \<^verbatim>\<open>settings\<close> has been assigned to it).
\<close>

fun forEachSetting ::
  "string \<Rightarrow> nat \<Rightarrow> ThemeSetting option list \<Rightarrow> string list \<times> ThemeSettingStyle option
   \<Rightarrow> error + string list \<times> ThemeSettingStyle option" where
  "forEachSetting themeSelector index [] st = Inr st"
| "forEachSetting themeSelector index (None # rest) st = Inl TypeError"
| "forEachSetting themeSelector index (Some s # rest) (cssRules, editorSettings) =
     (if index = 0 \<and> \<not> scopeTruthy (scope s)
      then forEachSetting themeSelector (Suc index) rest (cssRules, settings s)
      else forEachSetting themeSelector (Suc index) rest
             (cssRules @ entryRules themeSelector s, editorSettings))"

definition property :: "ThemeSettingStyle \<Rightarrow> string \<Rightarrow> string option" where
  "property es k = (if truthy (map_of es k) then map_of es k else None)"

definition colorOf :: "string \<Rightarrow> string" where
  "colorOf v = Color_toString (Color_parse v)"

definition editorRules :: "string \<Rightarrow> ThemeSettingStyle \<Rightarrow> string list" where
  "editorRules themeSelector es =
     (case property es ''background'' of None \<Rightarrow> []
      | Some v \<Rightarrow>
          [''.monaco-editor.'' @ themeSelector @ '' .monaco-editor-background { background-color: '' @ colorOf v @ ''; }'',
           ''.monaco-editor.'' @ themeSelector @ '' .glyph-margin { background-color: '' @ colorOf v @ ''; }'',
           ''.'' @ themeSelector @ '' .monaco-workbench .monaco-editor-background { background-color: '' @ colorOf v @ ''; }'']) @
     (case property es ''foreground'' of None \<Rightarrow> []
      | Some v \<Rightarrow> [''.monaco-editor.'' @ themeSelector @ '' .token { color: '' @ colorOf v @ ''; }'']) @
     (case property es ''selection'' of None \<Rightarrow> []
      | Some v \<Rightarrow>
          [''.monaco-editor.'' @ themeSelector @ '' .focused .selected-text { background-color: '' @ colorOf v @ ''; }'',
           ''.monaco-editor.'' @ themeSelector @ '' .selected-text { background-color: '' @
             Color_toString (transparent (Color_parse v) (1 / 2)) @ ''; }'']) @
     (case property es ''lineHighlight'' of None \<Rightarrow> []
      | Some v \<Rightarrow> [''.monaco-editor.'' @ themeSelector @ '' .current-line { background-color: '' @ colorOf v @ ''; border:0; }'']) @
     (case property es ''caret'' of None \<Rightarrow> []
      | Some v \<Rightarrow>
          [''.monaco-editor.'' @ themeSelector @ '' .cursor { background-color: '' @ colorOf v @
             ''; border-color: '' @ colorOf v @ ''; color: '' @
             Color_toString (opposite (Color_parse v)) @ ''; }'']) @
     (case property es ''invisibles'' of None \<Rightarrow> []
      | Some v \<Rightarrow>
          [''.monaco-editor.'' @ themeSelector @ '' .token.whitespace { color: '' @ colorOf v @ '' !important; }'',
           ''.monaco-editor.'' @ themeSelector @ '' .lines-content .cigr { background: '' @ colorOf v @ ''; }''])"

definition themeSelectorOf :: "host \<Rightarrow> string \<Rightarrow> string" where
  "themeSelectorOf h themeId = getBaseThemeId h themeId @ ''.'' @ getSyntaxThemeId h themeId"

definition processThemeObject :: "host \<Rightarrow> string \<Rightarrow> ThemeDocument \<Rightarrow> error + string" where
  "processThemeObject h themeId themeDocument =
     (let themeSelector = themeSelectorOf h themeId;
          start = ([], Some []);
          walked = (case doc_settings themeDocument of
                      Some themeSettings \<Rightarrow> forEachSetting themeSelector 0 themeSettings start
                    | None \<Rightarrow> Inr start)
      in case walked of
           Inl e \<Rightarrow> Inl e
         | Inr (cssRules, None) \<Rightarrow> Inl TypeError
         | Inr (cssRules, Some editorSettings) \<Rightarrow>
             Inr (join [CHR 0x0A] (cssRules @ editorRules themeSelector editorSettings)))"

subsection \<open>\<^verbatim>\<open>_loadThemeDocument\<close>\<close>

text \<open>
  Each file read takes one unit of fuel; \<open>None\<close> is a chain of includes that has not
  ended within the fuel (a cyclic chain never ends). The outer \<open>Some\<close> carries the
  promise's outcome: \<open>Inl\<close> a rejection, \<open>Inr\<close> the document. An including document
  without \<^verbatim>\<open>settings\<close> gets the included array with one \<^verbatim>\<open>undefined\<close> element
  appended, as \<^verbatim>\<open>concat\<close> does.
\<close>

fun loadThemeDocument :: "host \<Rightarrow> nat \<Rightarrow> string \<Rightarrow> (error + ThemeDocument) option" where
  "loadThemeDocument h 0 themePath = None"
| "loadThemeDocument h (Suc fuel) themePath =
     (case readFile h themePath of
        None \<Rightarrow> Some (Inl IOError)
      | Some content \<Rightarrow>
          if extname h themePath = ''.json'' then
            (let errors = fst (parseThemeJson h content);
                 contentValue = snd (parseThemeJson h content)
             in if errors \<noteq> [] then Some (Inl (ParseError errors))
                else if truthy (doc_include contentValue) then
                  (case loadThemeDocument h fuel
                          (joinPath h (dirname h themePath) (the (doc_include contentValue))) of
                     None \<Rightarrow> None
                   | Some (Inl e) \<Rightarrow> Some (Inl e)
                   | Some (Inr includedValue) \<Rightarrow>
                       (case doc_settings includedValue of
                          None \<Rightarrow> Some (Inl TypeError)
                        | Some included \<Rightarrow>
                            Some (Inr (contentValue \<lparr> doc_settings :=
                              Some (included @ (case doc_settings contentValue of
                                                  Some own \<Rightarrow> own | None \<Rightarrow> [None])) \<rparr>))))
                else Some (Inr contentValue))
          else
            (let errors = fst (parsePlist h content);
                 parsed = snd (parsePlist h content)
             in if errors \<noteq> [] then Some (Inl (ParseError errors)) else Some (Inr parsed)))"

subsection \<open>\<^verbatim>\<open>_processFileIconsObject\<close>\<close>

text \<open>
  \<^verbatim>\<open>for (key in obj)\<close> visits the array-index keys in ascending numeric order, then the
  other keys in insertion order.
\<close>

definition decimalValue :: "string \<Rightarrow> nat" where
  "decimalValue k = foldl (\<lambda>acc c. acc * 10 + (of_char c - 48)) 0 k"

definition isArrayIndex :: "string \<Rightarrow> bool" where
  "isArrayIndex k \<longleftrightarrow>
     k \<noteq> [] \<and> list_all (isDigitIn 10) k \<and> (if k = ''0'' then True else hd k \<noteq> CHR ''0'') \<and>
     decimalValue k < 4294967295"

definition forIn :: "(string \<times> 'v) list \<Rightarrow> (string \<times> 'v) list" where
  "forIn obj =
     sort_key (\<lambda>kv. decimalValue (fst kv)) (filter (\<lambda>kv. isArrayIndex (fst kv)) obj) @
     filter (\<lambda>kv. \<not> isArrayIndex (fst kv)) obj"

text \<open>
  Reading \<^verbatim>\<open>selectorByDefinitionId[defId]\<close> for a name that \<^verbatim>\<open>Object.prototype\<close>
  defines yields that inherited value, which is truthy and has no \<^verbatim>\<open>push\<close>.
\<close>

definition objectPrototypeKeys :: "string list" where
  "objectPrototypeKeys =
     [''constructor'', ''toString'', ''toLocaleString'', ''valueOf'', ''hasOwnProperty'',
      ''isPrototypeOf'', ''propertyIsEnumerable'', ''__defineGetter__'', ''__defineSetter__'',
      ''__lookupGetter__'', ''__lookupSetter__'', ''__proto__'']"

type_synonym selectorTable = "(string \<times> string list) list"

definition addSelector :: "string \<Rightarrow> string option \<Rightarrow> selectorTable \<Rightarrow> error + selectorTable" where
  "addSelector selector defId selectorByDefinitionId =
     (if truthy defId then
        (case map_of selectorByDefinitionId (the defId) of
           None \<Rightarrow>
             if the defId \<in> set objectPrototypeKeys then Inl TypeError
             else Inr (selectorByDefinitionId @ [(the defId, [selector])])
         | Some list \<Rightarrow>
             Inr (map (\<lambda>kv. if fst kv = the defId then (fst kv, snd kv @ [selector]) else kv)
                    selectorByDefinitionId))
      else Inr selectorByDefinitionId)"

fun addSelectors :: "(string \<times> string option) list \<Rightarrow> selectorTable \<Rightarrow> error + selectorTable" where
  "addSelectors [] tab = Inr tab"
| "addSelectors (call # calls) tab =
     (case addSelector (fst call) (snd call) tab of
        Inl e \<Rightarrow> Inl e
      | Inr tab' \<Rightarrow> addSelectors calls tab')"

text \<open>The calls of \<^verbatim>\<open>addSelector\<close> that \<^verbatim>\<open>collectSelectors\<close> makes, in order.\<close>

definition fileNameSelector :: "host \<Rightarrow> string \<Rightarrow> string \<Rightarrow> string" where
  "fileNameSelector h qualifier fileName =
     (let ext = toLowerCase (extname h fileName);
          name = toLowerCase (take (length fileName - length ext) fileName)
      in qualifier @ '' .'' @ escapeCSS h name @ ''-name-file-icon.'' @ escapeCSS h ext @
         ''-ext-file-icon.file-icon'')"

definition selectorCalls ::
  "host \<Rightarrow> 'x FileIconsAssociation_scheme \<Rightarrow> string \<Rightarrow> (string \<times> string option) list" where
  "selectorCalls h associations qualifier =
     [(qualifier @ '' .folder-icon'', folder associations),
      (qualifier @ '' .expanded .folder-icon'', folderExpanded associations),
      (qualifier @ '' .file-icon'', file_icon associations)] @
     (case fileExtensions associations of None \<Rightarrow> []
      | Some exts \<Rightarrow>
          map (\<lambda>kv. (qualifier @ '' .'' @ escapeCSS h (toLowerCase (fst kv)) @ ''-ext-file-icon.file-icon'',
                     Some (snd kv))) (forIn exts)) @
     (case fileNames associations of None \<Rightarrow> []
      | Some names \<Rightarrow>
          map (\<lambda>kv. (fileNameSelector h qualifier (fst kv), Some (snd kv))) (forIn names)) @
     (case languageIds associations of None \<Rightarrow> []
      | Some langs \<Rightarrow>
          map (\<lambda>kv. (qualifier @ '' .'' @ escapeCSS h (fst kv) @ ''-lang-file-icon.file-icon'',
                     Some (snd kv))) (forIn langs))"

definition collectSelectors ::
  "host \<Rightarrow> 'x FileIconsAssociation_scheme option \<Rightarrow> string option \<Rightarrow> selectorTable
   \<Rightarrow> error + selectorTable" where
  "collectSelectors h associations baseThemeClassName tab =
     (case associations of
        None \<Rightarrow> Inr tab
      | Some assoc \<Rightarrow>
          (let qualifier = (if truthy baseThemeClassName
                            then the baseThemeClassName @ '' '' @ ''.show-file-icons''
                            else ''.show-file-icons'')
           in addSelectors (selectorCalls h assoc qualifier) tab))"

text \<open>The output loop: one step for one key of \<^verbatim>\<open>selectorByDefinitionId\<close>.\<close>

definition iconRule :: "host \<Rightarrow> string \<Rightarrow> string list \<Rightarrow> string \<Rightarrow> string" where
  "iconRule h fileIconsPath selectors icon =
     join '', '' selectors @ '' { background-image: url('' @ [CHR 0x22] @
     joinPath h (dirname h fileIconsPath) icon @ [CHR 0x22] @ ''); }''"

definition outputStep ::
  "host \<Rightarrow> string \<Rightarrow> (string \<times> FileIconDefinition) list \<Rightarrow> string list
   \<Rightarrow> string \<times> string list \<Rightarrow> string list" where
  "outputStep h fileIconsPath defs cssRules entry =
     (case map_of defs (fst entry) of
        None \<Rightarrow> cssRules
      | Some definition \<Rightarrow>
          if truthy (iconPath definition)
          then cssRules @ [iconRule h fileIconsPath (snd entry) (the (iconPath definition))]
          else cssRules)"

definition outputRules ::
  "host \<Rightarrow> string \<Rightarrow> (string \<times> FileIconDefinition) list \<Rightarrow> selectorTable \<Rightarrow> string list" where
  "outputRules h fileIconsPath defs selectorByDefinitionId =
     foldl (outputStep h fileIconsPath defs) [] (forIn selectorByDefinitionId)"

definition processFileIconsObject :: "host \<Rightarrow> string \<Rightarrow> string \<Rightarrow> FileIconsDocument \<Rightarrow> error + string" where
  "processFileIconsObject h iconSetId fileIconsPath fileIconsDocument =
     (case iconDefinitions fileIconsDocument of
        None \<Rightarrow> Inr []
      | Some defs \<Rightarrow>
          (case collectSelectors h (Some fileIconsDocument) None [] of
             Inl e \<Rightarrow> Inl e
           | Inr t1 \<Rightarrow>
               (case collectSelectors h (light fileIconsDocument) (Some ''.vs'') t1 of
                  Inl e \<Rightarrow> Inl e
                | Inr t2 \<Rightarrow>
                    (case collectSelectors h (highContrast fileIconsDocument) (Some ''.hc_black'') t2 of
                       Inl e \<Rightarrow> Inl e
                     | Inr t3 \<Rightarrow> Inr (join [CHR 0x0A] (outputRules h fileIconsPath defs t3))))))"

subsection \<open>The service and its environment\<close>

definition DEFAULT_THEME_ID :: string where
  "DEFAULT_THEME_ID = ''vs-dark vscode-theme-defaults-themes-dark_plus-json''"

definition DEFAULT_FILE_ICONS :: string where
  "DEFAULT_FILE_ICONS = ''vs-standard''"

definition THEME_CHANNEL :: string where
  "THEME_CHANNEL = ''vscode:changeTheme''"

definition THEME_PREF :: string where
  "THEME_PREF = ''workbench.theme''"

definition colorThemeRulesClassName :: string where
  "colorThemeRulesClassName = ''contributedColorTheme''"

definition fileIconRulesClassName :: string where
  "fileIconRulesClassName = ''contributedFileIcons''"

definition validateThemeId :: "string \<Rightarrow> string" where
  "validateThemeId theme =
     (if theme = ''vs'' then ''vs vscode-theme-defaults-themes-light_vs-json''
      else if theme = ''vs-dark'' then ''vs-dark vscode-theme-defaults-themes-dark_vs-json''
      else if theme = ''hc-black'' then ''hc-black vscode-theme-defaults-themes-hc_black-json''
      else if theme = ''vs vscode-theme-colorful-defaults-themes-light_plus-tmTheme''
        then ''vs vscode-theme-defaults-themes-light_plus-json''
      else if theme = ''vs-dark vscode-theme-colorful-defaults-themes-dark_plus-tmTheme''
        then ''vs-dark vscode-theme-defaults-themes-dark_plus-json''
      else theme)"

text \<open>
  The value of \<^verbatim>\<open>currentFileIcons\<close> and of the \<^verbatim>\<open>iconTheme\<close> setting: the
  constructor stores \<^verbatim>\<open>null\<close>, a missing setting is \<^verbatim>\<open>undefined\<close>, and \<^verbatim>\<open>!==\<close>
  tells them apart.
\<close>

datatype iconSetting = Null | Undefined | IconSet string

text \<open>
  The fields of the class, then what it reaches outside itself: the style elements of
  the document head (class name and content, in document order), the global storage, the
  messages broadcast to the other windows, the telemetry log and the events fired on
  \<^verbatim>\<open>onColorThemeChange\<close>. \<open>container\<close> is the class list of the container element,
  \<open>None\<close> before \<^verbatim>\<open>initialize\<close>. A theme object is addressed by its index in the
  list that holds it, so that caching its style sheet updates the list.
\<close>

record ThemeService =
  knownThemes :: "IInternalThemeData list"
  currentTheme :: "string option"
  container :: "string list option"
  knownFileIconContributions :: "IInternalThemeData list"
  currentFileIcons :: iconSetting
  themeExtensionsActivated :: "string list"
  headStyles :: "(string \<times> string) list"
  storage :: "(string \<times> string) list"
  broadcasts :: "(string \<times> string) list"
  telemetry :: "(IExtensionDescription \<times> string) list"
  colorThemeChanges :: "string list"

fun upsert :: "string \<Rightarrow> string \<Rightarrow> (string \<times> string) list \<Rightarrow> (string \<times> string) list" where
  "upsert k v [] = [(k, v)]"
| "upsert k v (kv # rest) = (if fst kv = k then (k, v) # rest else kv # upsert k v rest)"

text \<open>\<^verbatim>\<open>_applyRules\<close>: the first style element of the class is overwritten, or one is appended.\<close>

definition applyRules :: "string \<Rightarrow> string \<Rightarrow> ThemeService \<Rightarrow> ThemeService" where
  "applyRules content rulesClassName s = s \<lparr> headStyles := upsert rulesClassName content (headStyles s) \<rparr>"

definition sendTelemetry :: "host \<Rightarrow> IInternalThemeData \<Rightarrow> ThemeService \<Rightarrow> ThemeService" where
  "sendTelemetry h themeData s =
     (if extensionId themeData \<in> set (themeExtensionsActivated s) then s
      else if extensionId themeData \<in> set objectPrototypeKeys then s
      else (case getExtensionDescription h (extensionId themeData) of
              None \<Rightarrow> s
            | Some d \<Rightarrow>
                s \<lparr> telemetry := telemetry s @ [(d, theme_id themeData)],
                    themeExtensionsActivated := themeExtensionsActivated s @ [extensionId themeData] \<rparr>))"

fun findIndex :: "('x \<Rightarrow> bool) \<Rightarrow> 'x list \<Rightarrow> nat option" where
  "findIndex P [] = None"
| "findIndex P (x # xs) = (if P x then Some 0 else map_option Suc (findIndex P xs))"

definition findThemeData :: "ThemeService \<Rightarrow> string \<Rightarrow> string option \<Rightarrow> nat option" where
  "findThemeData s themeId defaultId =
     (case findIndex (\<lambda>t. theme_id t = themeId) (knownThemes s) of
        Some i \<Rightarrow> Some i
      | None \<Rightarrow>
          if truthy defaultId
          then findIndex (\<lambda>t. theme_id t = the defaultId) (knownThemes s)
          else None)"

text \<open>
  \<^verbatim>\<open>applyTheme\<close>. The outcome is the promise's: \<open>Inl\<close> a rejection, \<open>Inr\<close> the value;
  an exception thrown by the compiler in the success handler rejects the promise too.
\<close>

definition applyTheme ::
  "host \<Rightarrow> nat \<Rightarrow> nat \<Rightarrow> (IInternalThemeData \<Rightarrow> ThemeService \<Rightarrow> ThemeService) \<Rightarrow> ThemeService
   \<Rightarrow> ((error + bool) \<times> ThemeService) option" where
  "applyTheme h fuel i onApply s =
     (let theme = knownThemes s ! i in
      if truthy (styleSheetContent theme)
      then Some (Inr True, onApply theme (applyRules (the (styleSheetContent theme)) colorThemeRulesClassName s))
      else
        (case loadThemeDocument h fuel (path theme) of
           None \<Rightarrow> None
         | Some (Inl e) \<Rightarrow> Some (Inl (LoadError (path theme)), s)
         | Some (Inr themeDocument) \<Rightarrow>
             (case processThemeObject h (theme_id theme) themeDocument of
                Inl e \<Rightarrow> Some (Inl e, s)
              | Inr content \<Rightarrow>
                  (let theme' = theme \<lparr> styleSheetContent := Some content \<rparr>;
                       s' = s \<lparr> knownThemes := (knownThemes s)[i := theme'] \<rparr>
                   in Some (Inr True, onApply theme' (applyRules content colorThemeRulesClassName s'))))))"

definition applyThemeCSS ::
  "host \<Rightarrow> nat \<Rightarrow> string \<Rightarrow> string \<Rightarrow> (IInternalThemeData \<Rightarrow> ThemeService \<Rightarrow> ThemeService)
   \<Rightarrow> ThemeService \<Rightarrow> ((error + bool) \<times> ThemeService) option" where
  "applyThemeCSS h fuel themeId defaultId onApply s =
     (case findThemeData s themeId (Some defaultId) of
        Some i \<Rightarrow> applyTheme h fuel i onApply s
      | None \<Rightarrow> Some (Inr False, s))"

text \<open>
  \<^verbatim>\<open>removeClass\<close> and \<^verbatim>\<open>addClass\<close> of the builder: the argument is split at the spaces,
  and each name that is not empty is removed from the class list, or added to it when it
  is not there.
\<close>

definition removeClass :: "string \<Rightarrow> string list \<Rightarrow> string list" where
  "removeClass nameValue classes = filter (\<lambda>c. c \<notin> set (split CHR '' '' nameValue)) classes"

definition addClass :: "string \<Rightarrow> string list \<Rightarrow> string list" where
  "addClass nameValue classes =
     foldl (\<lambda>cs n. if n = [] \<or> n \<in> set cs then cs else cs @ [n]) classes
       (split CHR '' '' nameValue)"

text \<open>The closure \<^verbatim>\<open>onApply\<close> of \<^verbatim>\<open>setColorTheme\<close>.\<close>

definition onApply :: "host \<Rightarrow> bool \<Rightarrow> IInternalThemeData \<Rightarrow> ThemeService \<Rightarrow> ThemeService" where
  "onApply h broadcastToAllWindows newTheme s =
     (let newThemeId = theme_id newTheme;
          s1 = (case container s of
                  None \<Rightarrow> s
                | Some classes \<Rightarrow>
                    (let removed = (if truthy (currentTheme s)
                                    then removeClass (the (currentTheme s)) classes
                                    else classes)
                     in s \<lparr> currentTheme := Some newThemeId,
                           container := Some (addClass newThemeId removed) \<rparr>));
          s2 = s1 \<lparr> storage := upsert THEME_PREF newThemeId (storage s1) \<rparr>;
          s3 = (if broadcastToAllWindows
                then s2 \<lparr> broadcasts := broadcasts s2 @ [(THEME_CHANNEL, newThemeId)] \<rparr>
                else sendTelemetry h newTheme s2)
      in s3 \<lparr> colorThemeChanges := colorThemeChanges s3 @ [newThemeId] \<rparr>)"

definition setColorTheme ::
  "host \<Rightarrow> nat \<Rightarrow> string \<Rightarrow> bool \<Rightarrow> ThemeService \<Rightarrow> ((error + bool) \<times> ThemeService) option" where
  "setColorTheme h fuel themeId broadcastToAllWindows s =
     (if themeId = [] then Some (Inr False, s)
      else if Some themeId = currentTheme s then
        Some (Inr True,
              if broadcastToAllWindows
              then s \<lparr> broadcasts := broadcasts s @ [(THEME_CHANNEL, themeId)] \<rparr>
              else s)
      else applyThemeCSS h fuel (validateThemeId themeId) DEFAULT_THEME_ID
             (onApply h broadcastToAllWindows) s)"

definition initialize ::
  "host \<Rightarrow> nat \<Rightarrow> string list \<Rightarrow> ThemeService \<Rightarrow> ((error + bool) \<times> ThemeService) option" where
  "initialize h fuel classes s =
     (let s1 = s \<lparr> container := Some classes \<rparr> in
      if truthy (map_of (storage s1) THEME_PREF)
      then setColorTheme h fuel (the (map_of (storage s1) THEME_PREF)) False s1
      else setColorTheme h fuel DEFAULT_THEME_ID False
             (s1 \<lparr> storage := upsert THEME_PREF DEFAULT_THEME_ID (storage s1) \<rparr>))"

subsection \<open>File icon sets\<close>

definition loadFileIconsDocument :: "host \<Rightarrow> string \<Rightarrow> error + FileIconsDocument" where
  "loadFileIconsDocument h fileSetPath =
     (case readFile h fileSetPath of
        None \<Rightarrow> Inl IOError
      | Some content \<Rightarrow>
          (let errors = fst (parseFileIconsJson h content);
               contentValue = snd (parseFileIconsJson h content)
           in if errors \<noteq> [] then Inl (ParseError errors) else Inr contentValue))"

definition applyFileIcons :: "host \<Rightarrow> nat \<Rightarrow> ThemeService \<Rightarrow> (error + bool) \<times> ThemeService" where
  "applyFileIcons h i s =
     (let data = knownFileIconContributions s ! i in
      if truthy (styleSheetContent data)
      then (Inr True, applyRules (the (styleSheetContent data)) fileIconRulesClassName s)
      else
        (case loadFileIconsDocument h (path data) of
           Inl e \<Rightarrow> (Inl (LoadError (path data)), s)
         | Inr fileIconsDocument \<Rightarrow>
             (case processFileIconsObject h (theme_id data) (path data) fileIconsDocument of
                Inl e \<Rightarrow> (Inl e, s)
              | Inr content \<Rightarrow>
                  (let data' = data \<lparr> styleSheetContent := Some content \<rparr>;
                       s' = s \<lparr> knownFileIconContributions := (knownFileIconContributions s)[i := data'] \<rparr>
                   in (Inr True, applyRules content fileIconRulesClassName s')))))"

text \<open>
  The loop of \<^verbatim>\<open>_updateFileIcons\<close>: it stops at the first set with the current id,
  and until then remembers the last set with the default id.
\<close>

fun findIconSet :: "iconSetting \<Rightarrow> IInternalThemeData list \<Rightarrow> nat \<Rightarrow> nat option \<Rightarrow> nat option" where
  "findIconSet cur [] i iconSetData = iconSetData"
| "findIconSet cur (iconSet # rest) i iconSetData =
     (if IconSet (theme_id iconSet) = cur then Some i
      else if theme_id iconSet = DEFAULT_FILE_ICONS then findIconSet cur rest (Suc i) (Some i)
      else findIconSet cur rest (Suc i) iconSetData)"

definition updateFileIcons :: "host \<Rightarrow> ThemeService \<Rightarrow> (error + bool) \<times> ThemeService" where
  "updateFileIcons h s =
     (case findIconSet (currentFileIcons s) (knownFileIconContributions s) 0 None of
        Some i \<Rightarrow> applyFileIcons h i s
      | None \<Rightarrow> (Inr False, s))"

definition setFileIcons :: "host \<Rightarrow> iconSetting \<Rightarrow> ThemeService \<Rightarrow> (error + bool) \<times> ThemeService" where
  "setFileIcons h fileIcons s =
     (if fileIcons \<noteq> currentFileIcons s
      then updateFileIcons h (s \<lparr> currentFileIcons := fileIcons \<rparr>)
      else (Inr True, s))"

subsection \<open>Registration of the contributions\<close>

definition isSelectorChar :: "char \<Rightarrow> bool" where
  "isSelectorChar c =
     (let n = of_char c :: nat
      in n = 95 \<or> n = 45 \<or> (97 \<le> n \<and> n \<le> 122) \<or> (65 \<le> n \<and> n \<le> 90) \<or> (48 \<le> n \<and> n \<le> 57))"

definition toCSSSelector :: "string \<Rightarrow> string" where
  "toCSSSelector str =
     (let replaced = map (\<lambda>c. if isSelectorChar c then c else CHR ''-'') str
      in case replaced of
           [] \<Rightarrow> replaced
         | c # cs \<Rightarrow> if isDigitIn 10 c \<or> c = CHR ''-'' then CHR ''_'' # replaced else replaced)"

text \<open>\<^verbatim>\<open>String(v)\<close>, the test \<^verbatim>\<open>!v || typeof v !== 'string'\<close> negated, and the string.\<close>

definition showString :: "declared \<Rightarrow> string" where
  "showString v = (case v of Absent \<Rightarrow> ''undefined'' | NonString txt \<Rightarrow> txt | StringValue str \<Rightarrow> str)"

definition isString :: "declared \<Rightarrow> bool" where
  "isString v = (case v of Absent \<Rightarrow> False | NonString txt \<Rightarrow> False | StringValue str \<Rightarrow> str \<noteq> [])"

definition stringOf :: "declared \<Rightarrow> string" where
  "stringOf v = (case v of Absent \<Rightarrow> [] | NonString txt \<Rightarrow> [] | StringValue str \<Rightarrow> str)"

text \<open>The constructor: the fields as it leaves them.\<close>

definition newThemeService :: ThemeService where
  "newThemeService =
     \<lparr> knownThemes = [], currentTheme = None, container = None,
       knownFileIconContributions = [], currentFileIcons = Null,
       themeExtensionsActivated = [], headStyles = [], storage = [], broadcasts = [],
       telemetry = [], colorThemeChanges = [] \<rparr>"

text \<open>The body of the loop of \<^verbatim>\<open>onThemes\<close>, for one declared theme.\<close>

definition onTheme ::
  "host \<Rightarrow> string \<Rightarrow> string \<Rightarrow> ThemeService \<times> collectorMessage list \<Rightarrow> IThemeExtensionPoint
   \<Rightarrow> ThemeService \<times> collectorMessage list" where
  "onTheme h extensionFolderPath extId st theme =
     (if \<not> isString (ep_path theme)
      then (fst st, snd st @ [CollectorError ''reqpath'' [''themes'', showString (ep_path theme)]])
      else
        (let normalizedAbsolutePath =
               normalize h (joinPath h extensionFolderPath (stringOf (ep_path theme)));
             msgs = (if take (length extensionFolderPath) normalizedAbsolutePath \<noteq> extensionFolderPath
                     then snd st @ [CollectorWarn ''invalid.path.1''
                                      [''themes'', normalizedAbsolutePath, extensionFolderPath]]
                     else snd st);
             themeSelector = toCSSSelector (extId @ ''-'' @ normalize h (stringOf (ep_path theme)))
         in ((fst st) \<lparr> knownThemes := knownThemes (fst st) @
               [\<lparr> theme_id =
                    (if truthy (ep_uiTheme theme) then the (ep_uiTheme theme)
                     else getBaseThemeId h DEFAULT_THEME_ID) @ '' '' @ themeSelector,
                  label = (if truthy (ep_label theme) then the (ep_label theme)
                           else basename h (stringOf (ep_path theme))),
                  description = ep_description theme,
                  path = normalizedAbsolutePath,
                  extensionId = extId,
                  styleSheetContent = None \<rparr>] \<rparr>,
             msgs)))"

definition onThemes ::
  "host \<Rightarrow> string \<Rightarrow> string \<Rightarrow> IThemeExtensionPoint list option
   \<Rightarrow> ThemeService \<times> collectorMessage list \<Rightarrow> ThemeService \<times> collectorMessage list" where
  "onThemes h extensionFolderPath extId themes st =
     (case themes of
        None \<Rightarrow> (fst st, snd st @ [CollectorError ''reqarray'' [''themes'']])
      | Some ts \<Rightarrow> foldl (onTheme h extensionFolderPath extId) st ts)"

definition onFileIconSet ::
  "host \<Rightarrow> string \<Rightarrow> string \<Rightarrow> ThemeService \<times> collectorMessage list \<Rightarrow> IThemeExtensionPoint
   \<Rightarrow> ThemeService \<times> collectorMessage list" where
  "onFileIconSet h extensionFolderPath extId st fileIconSet =
     (if \<not> isString (ep_path fileIconSet)
      then (fst st, snd st @ [CollectorError ''reqpath'' [''themes'', showString (ep_path fileIconSet)]])
      else if \<not> isString (ep_id fileIconSet)
      then (fst st, snd st @ [CollectorError ''reqid'' [''themes'', showString (ep_path fileIconSet)]])
      else
        (let normalizedAbsolutePath =
               normalize h (joinPath h extensionFolderPath (stringOf (ep_path fileIconSet)));
             msgs = (if take (length extensionFolderPath) normalizedAbsolutePath \<noteq> extensionFolderPath
                     then snd st @ [CollectorWarn ''invalid.path.1''
                                      [''themes'', normalizedAbsolutePath, extensionFolderPath]]
                     else snd st)
         in ((fst st) \<lparr> knownFileIconContributions := knownFileIconContributions (fst st) @
               [\<lparr> theme_id = stringOf (ep_id fileIconSet),
                  label = (if truthy (ep_label fileIconSet) then the (ep_label fileIconSet)
                           else basename h (stringOf (ep_path fileIconSet))),
                  description = ep_description fileIconSet,
                  path = normalizedAbsolutePath,
                  extensionId = extId,
                  styleSheetContent = None \<rparr>] \<rparr>,
             msgs)))"

definition onFileIcons ::
  "host \<Rightarrow> string \<Rightarrow> string \<Rightarrow> IThemeExtensionPoint list option
   \<Rightarrow> ThemeService \<times> collectorMessage list \<Rightarrow> ThemeService \<times> collectorMessage list" where
  "onFileIcons h extensionFolderPath extId fileIcons st =
     (case fileIcons of
        None \<Rightarrow> (fst st, snd st @ [CollectorError ''reqarray'' [''themes'']])
      | Some sets \<Rightarrow> foldl (onFileIconSet h extensionFolderPath extId) st sets)"

text \<open>The handlers that the constructor registers, and \<^verbatim>\<open>getColorTheme\<close>.\<close>

definition onBroadcast ::
  "host \<Rightarrow> nat \<Rightarrow> string \<Rightarrow> string option \<Rightarrow> ThemeService \<Rightarrow> ((error + bool) \<times> ThemeService) option" where
  "onBroadcast h fuel channel payload s =
     (if channel = THEME_CHANNEL \<and> payload \<noteq> None
      then setColorTheme h fuel (the payload) False s
      else Some (Inr True, s))"

definition onDidUpdateConfiguration ::
  "host \<Rightarrow> iconSetting \<Rightarrow> ThemeService \<Rightarrow> (error + bool) \<times> ThemeService" where
  "onDidUpdateConfiguration h iconTheme s = setFileIcons h iconTheme s"

definition getColorTheme :: "ThemeService \<Rightarrow> string" where
  "getColorTheme s =
     (if truthy (currentTheme s) then the (currentTheme s)
      else (case map_of (storage s) THEME_PREF of None \<Rightarrow> DEFAULT_THEME_ID | Some v \<Rightarrow> v))"

subsection \<open>Definitions used to state the properties\<close>

text \<open>The fallback color of \<^verbatim>\<open>Color.parse\<close>, and the two accepted forms.\<close>

definition sentinel :: RGBA where
  "sentinel = \<lparr> r = Some 255, g = Some 0, b = Some 0, a = Some 1 \<rparr>"

definition hexByte :: "char \<Rightarrow> char \<Rightarrow> int" where
  "hexByte c1 c2 = int (the (digitValue c1) * 16 + the (digitValue c2))"

text \<open>
  What a pair of characters is read as in a channel: the byte of two hexadecimal digits,
  the value of the first digit when only the second character is not one, and \<^verbatim>\<open>NaN\<close>
  when the first character is not one.
\<close>

definition hexPair :: "char \<Rightarrow> char \<Rightarrow> int option" where
  "hexPair c1 c2 =
     (if isDigitIn 16 c1
      then (if isDigitIn 16 c2 then Some (hexByte c1 c2) else Some (int (the (digitValue c1))))
      else None)"

definition wellFormedColor :: "string \<Rightarrow> bool" where
  "wellFormedColor color \<longleftrightarrow>
     take 1 color = ''#'' \<and> (length color = 7 \<or> length color = 9) \<and>
     list_all (isDigitIn 16) (drop 1 color)"

text \<open>
  The tokens of a string separated by white space of any kind, and the declaration
  that the specification gives for one \<^verbatim>\<open>fontStyle\<close> token.
\<close>

fun splitWhere :: "(char \<Rightarrow> bool) \<Rightarrow> string \<Rightarrow> string list" where
  "splitWhere P [] = [[]]"
| "splitWhere P (x # xs) =
     (if P x then [] # splitWhere P xs
      else (case splitWhere P xs of [] \<Rightarrow> [[x]] | w # ws \<Rightarrow> (x # w) # ws))"

definition whitespaceTokens :: "string \<Rightarrow> string list" where
  "whitespaceTokens s = filter (\<lambda>w. w \<noteq> []) (splitWhere isWhiteSpace s)"

definition fontStyleDeclaration :: "string \<Rightarrow> string list" where
  "fontStyleDeclaration token =
     (if token = ''italic'' then [''font-style: italic;'']
      else if token = ''bold'' then [''font-weight: bold;'']
      else if token = ''underline'' then [''text-decoration: underline;'']
      else [])"

text \<open>What one property of a settings object adds to the statements.\<close>

definition settingContribution :: "string \<times> string \<Rightarrow> string list" where
  "settingContribution kv = settingStatement [] kv"

text \<open>The rule that one scope token stands for, given the statements of its entry.\<close>

definition tokenRule :: "string \<Rightarrow> string \<Rightarrow> string \<Rightarrow> string" where
  "tokenRule themeSelector statements token =
     ''.monaco-editor.'' @ themeSelector @ '' .token.'' @ replaceSpaces (trim token) @
     '' { '' @ statements @ '' }''"

text \<open>
  The rules that the specification gives one definition id in the output of the file
  icon compiler: none, or the one rule of its selectors.
\<close>

definition definitionRules ::
  "host \<Rightarrow> string \<Rightarrow> (string \<times> FileIconDefinition) list \<Rightarrow> selectorTable \<Rightarrow> string \<Rightarrow> string list" where
  "definitionRules h fileIconsPath defs tab defId =
     (case map_of tab defId of
        None \<Rightarrow> []
      | Some selectors \<Rightarrow>
          (case map_of defs defId of
             None \<Rightarrow> []
           | Some d \<Rightarrow>
               (case iconPath d of
                  None \<Rightarrow> []
                | Some icon \<Rightarrow>
                    if icon = [] then []
                    else [join '', '' selectors @ '' { background-image: url('' @ [CHR 0x22] @
                          joinPath h (dirname h fileIconsPath) icon @ [CHR 0x22] @ ''); }''])))"

subsection \<open>An example environment\<close>

text \<open>
  A small environment on which the theorems are instantiated: theme ids of the form
  \<^verbatim>\<open>base syntax\<close>, paths with \<^verbatim>\<open>/\<close>, a file system of a few files whose content
  is a letter, and parsers that map the letter to its parsed document.
\<close>

definition exampleDefaults :: ThemeSetting where
  "exampleDefaults =
     \<lparr> name = None, scope = None, settings = Some [(''foreground'', ''#000000'')] \<rparr>"

definition exampleEntry :: ThemeSetting where
  "exampleEntry =
     \<lparr> name = Some ''Strings'', scope = Some (ScopeString ''string, string.quoted''),
       settings = Some [(''foreground'', ''#FFFFFF80''), (''fontStyle'', ''bold italic'')] \<rparr>"

definition exampleDocA :: ThemeDocument where
  "exampleDocA =
     \<lparr> doc_name = ''A'', doc_include = Some ''b.json'', doc_settings = Some [Some exampleEntry] \<rparr>"

definition exampleDocB :: ThemeDocument where
  "exampleDocB =
     \<lparr> doc_name = ''B'', doc_include = None, doc_settings = Some [Some exampleDefaults] \<rparr>"

definition exampleIcons :: FileIconsDocument where
  "exampleIcons =
     \<lparr> folder = None, file_icon = None, folderExpanded = None, fileExtensions = None,
       fileNames = Some [(''Makefile'', ''defA'')], languageIds = None,
       iconDefinitions = Some [(''defA'', \<lparr> iconPath = Some ''make.svg'' \<rparr>)],
       light = None, highContrast = None \<rparr>"

definition exampleExtname :: "string \<Rightarrow> string" where
  "exampleExtname p =
     (let base = last (split CHR ''/'' p)
      in if CHR ''.'' \<in> set base then CHR ''.'' # last (split CHR ''.'' base) else [])"

definition exampleDirname :: "string \<Rightarrow> string" where
  "exampleDirname p = join ''/'' (butlast (split CHR ''/'' p))"

definition exampleHost :: host where
  "exampleHost =
     \<lparr> getBaseThemeId = (\<lambda>themeId. hd (split CHR '' '' themeId)),
       getSyntaxThemeId = (\<lambda>themeId. last (split CHR '' '' themeId)),
       extname = exampleExtname,
       dirname = exampleDirname,
       joinPath = (\<lambda>p q. p @ ''/'' @ q),
       normalize = (\<lambda>p. p),
       basename = (\<lambda>p. last (split CHR ''/'' p)),
       escapeCSS = (\<lambda>str. str),
       readFile = map_of
         [(''/ext/themes/a.json'', ''A''), (''/ext/themes/b.json'', ''B''),
          (''/ext/themes/a.tmTheme'', ''A''), (''/ext/icons/seti.json'', ''I'')],
       parseThemeJson = (\<lambda>content.
          if content = ''A'' then ([], exampleDocA)
          else if content = ''B'' then ([], exampleDocB)
          else ([''invalid''], exampleDocB)),
       parsePlist = (\<lambda>content.
          if content = ''A'' then ([], exampleDocA)
          else if content = ''B'' then ([], exampleDocB)
          else ([''invalid''], exampleDocB)),
       parseFileIconsJson = (\<lambda>content.
          if content = ''I'' then ([], exampleIcons) else ([''invalid''], exampleIcons)),
       getExtensionDescription = (\<lambda>extId. None) \<rparr>"

text \<open>
  A service with one registered color theme, not yet compiled, and two icon sets: the
  active one, compiled and installed, and one whose file cannot be read.
\<close>

definition exampleService :: ThemeService where
  "exampleService =
     \<lparr> knownThemes =
         [\<lparr> theme_id = ''vs vscode-theme-defaults-themes-light_vs-json'', label = ''Light'',
            description = None, path = ''/ext/themes/b.json'',
            extensionId = ''vscode.theme-defaults'', styleSheetContent = None \<rparr>],
       currentTheme = None,
       container = Some [],
       knownFileIconContributions =
         [\<lparr> theme_id = ''old-icons'', label = ''Old'', description = None,
            path = ''/ext/icons/seti.json'', extensionId = ''vscode.icons'',
            styleSheetContent = Some ''OLD'' \<rparr>,
          \<lparr> theme_id = ''new-icons'', label = ''New'', description = None,
            path = ''/ext/icons/missing.json'', extensionId = ''vscode.icons'',
            styleSheetContent = None \<rparr>],
       currentFileIcons = IconSet ''old-icons'',
       themeExtensionsActivated = [],
       headStyles = [(''contributedFileIcons'', ''OLD'')],
       storage = [],
       broadcasts = [],
       telemetry = [],
       colorThemeChanges = [] \<rparr>"

text \<open>
  What the registration and the activation keep true of the service: every registered
  color theme has an id that is not empty, and the active id is the id of a registered
  color theme.
\<close>

definition serviceInvariant :: "ThemeService \<Rightarrow> bool" where
  "serviceInvariant s \<longleftrightarrow>
     list_all (\<lambda>t. theme_id t \<noteq> []) (knownThemes s) \<and>
     (case currentTheme s of
        None \<Rightarrow> True
      | Some cur \<Rightarrow> list_ex (\<lambda>t. theme_id t = cur) (knownThemes s))"

section \<open>Properties\<close>

subsection \<open>Color parsing\<close>

lemma parseHex_pair:
  assumes "isDigitIn 16 c1" "isDigitIn 16 c2"
  shows "parseHex [c1, c2] = Some (hexByte c1 c2)"
  using assms
  by (simp add: parseHex_def parseInt_def isWhiteSpace_def hexByte_def)

lemma length_seven:
  "length (xs::string) = 7 \<Longrightarrow> \<exists>c0 c1 c2 c3 c4 c5 c6. xs = [c0, c1, c2, c3, c4, c5, c6]"
  by (auto simp add: length_Suc_conv eval_nat_numeral)

lemma length_nine:
  "length (xs::string) = 9 \<Longrightarrow>
   \<exists>c0 c1 c2 c3 c4 c5 c6 c7 c8. xs = [c0, c1, c2, c3, c4, c5, c6, c7, c8]"
  by (auto simp add: length_Suc_conv eval_nat_numeral)

lemma parse_RRGGBB:
  assumes "length color = 7" "take 1 color = ''#''" "list_all (isDigitIn 16) (drop 1 color)"
  shows "Color_parse color =
     \<lparr> r = Some (hexByte (color ! 1) (color ! 2)), g = Some (hexByte (color ! 3) (color ! 4)),
       b = Some (hexByte (color ! 5) (color ! 6)), a = Some 1 \<rparr>"
proof -
  from length_seven [OF assms(1)] obtain c0 c1 c2 c3 c4 c5 c6
    where "color = [c0, c1, c2, c3, c4, c5, c6]" by blast
  with assms show ?thesis
    by (simp add: Color_parse_def substr_def parseHex_pair)
qed

lemma parse_RRGGBBAA:
  assumes "length color = 9" "take 1 color = ''#''" "list_all (isDigitIn 16) (drop 1 color)"
  shows "Color_parse color =
     \<lparr> r = Some (hexByte (color ! 1) (color ! 2)), g = Some (hexByte (color ! 3) (color ! 4)),
       b = Some (hexByte (color ! 5) (color ! 6)),
       a = Some (of_int (hexByte (color ! 7) (color ! 8)) / 255) \<rparr>"
proof -
  from length_nine [OF assms(1)] obtain c0 c1 c2 c3 c4 c5 c6 c7 c8
    where "color = [c0, c1, c2, c3, c4, c5, c6, c7, c8]" by blast
  with assms show ?thesis
    by (simp add: Color_parse_def substr_def parseHex_pair)
qed

lemma parse_short:
  "take 1 color \<noteq> ''#'' \<or> length color < 7 \<Longrightarrow> Color_parse color = sentinel"
  by (auto simp add: Color_parse_def sentinel_def)

lemma parseHex_any_pair: "parseHex [c1, c2] = hexPair c1 c2"
  by (simp add: parseHex_def parseInt_def isWhiteSpace_def hexByte_def hexPair_def)

lemma length_at_least_seven:
  "7 \<le> length (xs::string) \<Longrightarrow>
   \<exists>c0 c1 c2 c3 c4 c5 c6 rest. xs = c0 # c1 # c2 # c3 # c4 # c5 # c6 # rest"
  by (auto simp add: Suc_le_length_iff eval_nat_numeral)

lemma parse_hash:
  assumes "take 1 color = ''#''" "7 \<le> length color"
  shows "Color_parse color =
     \<lparr> r = hexPair (color ! 1) (color ! 2), g = hexPair (color ! 3) (color ! 4),
       b = hexPair (color ! 5) (color ! 6),
       a = (if length color = 9
            then map_option (\<lambda>v. of_int v / 255) (hexPair (color ! 7) (color ! 8))
            else Some 1) \<rparr>"
proof -
  from length_at_least_seven [OF assms(2)] obtain c0 c1 c2 c3 c4 c5 c6 rest
    where c: "color = c0 # c1 # c2 # c3 # c4 # c5 # c6 # rest" by blast
  show ?thesis
  proof (cases "length color = 9")
    case False
    with assms c show ?thesis
      by (simp add: Color_parse_def substr_def parseHex_any_pair)
  next
    case True
    with c have "length rest = 2" by simp
    then obtain c7 c8 where "rest = [c7, c8]"
      by (auto simp add: length_Suc_conv eval_nat_numeral)
    with assms c show ?thesis
      by (simp add: Color_parse_def substr_def parseHex_any_pair)
  qed
qed

lemmas parse_eval =
  Color_parse_def parseHex_def parseInt_def substr_def isWhiteSpace_def isDigitIn_def
  digitValue_def

text \<open>
  C4, as amended. \<^verbatim>\<open>Color.parse\<close> reads \<^verbatim>\<open>#RRGGBB\<close> with alpha 1 and \<^verbatim>\<open>#RRGGBBAA\<close>
  with alpha the last byte over 255, and it returns the sentinel for every string that
  does not start with \<^verbatim>\<open>#\<close> or has fewer than 7 characters. Every other string, which
  starts with \<^verbatim>\<open>#\<close> and has 7 characters or more, is read as hexadecimal whatever its
  digits and its length: the channels are the pairs at characters 1 to 6, each read as
  \<open>hexPair\<close> says, and alpha is 1 unless the length is exactly 9, where it is the pair
  at characters 7 and 8 over 255. The three examples of the specification hold.
\<close>

theorem Color_parse_accepts_or_short_sentinel:
  "(wellFormedColor color \<and> length color = 7 \<longrightarrow>
      Color_parse color =
        \<lparr> r = Some (hexByte (color ! 1) (color ! 2)), g = Some (hexByte (color ! 3) (color ! 4)),
          b = Some (hexByte (color ! 5) (color ! 6)), a = Some 1 \<rparr>) \<and>
   (wellFormedColor color \<and> length color = 9 \<longrightarrow>
      Color_parse color =
        \<lparr> r = Some (hexByte (color ! 1) (color ! 2)), g = Some (hexByte (color ! 3) (color ! 4)),
          b = Some (hexByte (color ! 5) (color ! 6)),
          a = Some (of_int (hexByte (color ! 7) (color ! 8)) / 255) \<rparr>) \<and>
   (take 1 color \<noteq> ''#'' \<or> length color < 7 \<longrightarrow> Color_parse color = sentinel) \<and>
   (take 1 color = ''#'' \<and> 7 \<le> length color \<longrightarrow>
      Color_parse color =
        \<lparr> r = hexPair (color ! 1) (color ! 2), g = hexPair (color ! 3) (color ! 4),
          b = hexPair (color ! 5) (color ! 6),
          a = (if length color = 9
               then map_option (\<lambda>v. of_int v / 255) (hexPair (color ! 7) (color ! 8))
               else Some 1) \<rparr>) \<and>
   Color_parse ''#000000'' = \<lparr> r = Some 0, g = Some 0, b = Some 0, a = Some 1 \<rparr> \<and>
   Color_parse ''#FFFFFF80'' =
     \<lparr> r = Some 255, g = Some 255, b = Some 255, a = Some (128 / 255) \<rparr> \<and>
   Color_parse ''bogus'' = sentinel"
proof (intro conjI impI)
  show "Color_parse ''#000000'' = \<lparr> r = Some 0, g = Some 0, b = Some 0, a = Some 1 \<rparr>"
    by (simp add: parse_eval)
  show "Color_parse ''#FFFFFF80'' =
      \<lparr> r = Some 255, g = Some 255, b = Some 255, a = Some (128 / 255) \<rparr>"
    by (simp add: parse_eval)
  show "Color_parse ''bogus'' = sentinel"
    by (simp add: parse_short)
  show "Color_parse color =
        \<lparr> r = hexPair (color ! 1) (color ! 2), g = hexPair (color ! 3) (color ! 4),
          b = hexPair (color ! 5) (color ! 6),
          a = (if length color = 9
               then map_option (\<lambda>v. of_int v / 255) (hexPair (color ! 7) (color ! 8))
               else Some 1) \<rparr>"
    if "take 1 color = ''#'' \<and> 7 \<le> length color"
    using that by (simp add: parse_hash)
qed (simp_all add: wellFormedColor_def parse_RRGGBB parse_RRGGBBAA parse_short)

theorem Color_parse_accepts_or_short_sentinel_witness:
  "wellFormedColor ''#0a141e'' \<and> wellFormedColor ''#0a141e80'' \<and>
   Color_parse ''#0a141e'' = \<lparr> r = Some 10, g = Some 20, b = Some 30, a = Some 1 \<rparr> \<and>
   Color_parse ''#0a141e80'' =
     \<lparr> r = Some 10, g = Some 20, b = Some 30, a = Some (128 / 255) \<rparr> \<and>
   Color_parse ''0a141e'' = sentinel \<and>
   Color_parse ''#1g00001'' = \<lparr> r = Some 1, g = Some 0, b = Some 0, a = Some 1 \<rparr> \<and>
   Color_parse ''#g1000080'' = \<lparr> r = None, g = Some 0, b = Some 0, a = Some (128 / 255) \<rparr>"
proof -
  have w1: "wellFormedColor ''#0a141e''" and w2: "wellFormedColor ''#0a141e80''"
    by (simp_all add: wellFormedColor_def isDigitIn_def digitValue_def)
  from w1 Color_parse_accepts_or_short_sentinel [of "''#0a141e''"]
  have "Color_parse ''#0a141e'' = \<lparr> r = Some 10, g = Some 20, b = Some 30, a = Some 1 \<rparr>"
    by (simp add: hexByte_def digitValue_def)
  moreover from w2 Color_parse_accepts_or_short_sentinel [of "''#0a141e80''"]
  have "Color_parse ''#0a141e80'' =
      \<lparr> r = Some 10, g = Some 20, b = Some 30, a = Some (128 / 255) \<rparr>"
    by (simp add: hexByte_def digitValue_def)
  moreover from Color_parse_accepts_or_short_sentinel [of "''0a141e''"]
  have "Color_parse ''0a141e'' = sentinel" by simp
  moreover from Color_parse_accepts_or_short_sentinel [of "''#1g00001''"]
  have "Color_parse ''#1g00001'' = \<lparr> r = Some 1, g = Some 0, b = Some 0, a = Some 1 \<rparr>"
    by (simp add: hexPair_def hexByte_def isDigitIn_def digitValue_def)
  moreover from Color_parse_accepts_or_short_sentinel [of "''#g1000080''"]
  have "Color_parse ''#g1000080'' =
      \<lparr> r = None, g = Some 0, b = Some 0, a = Some (128 / 255) \<rparr>"
    by (simp add: hexPair_def hexByte_def isDigitIn_def digitValue_def)
  ultimately show ?thesis using w1 w2 by simp
qed

text \<open>
  C4 as stated fails: a string of 8 characters and a string with digits that are not
  hexadecimal are neither of the two accepted forms, and neither is given the sentinel:
  the first is read as opaque black, the second has \<^verbatim>\<open>NaN\<close> channels.
\<close>

theorem Color_parse_sentinel_counterexample:
  "\<not> wellFormedColor ''#0000000'' \<and> Color_parse ''#0000000'' \<noteq> sentinel \<and>
   \<not> wellFormedColor ''#GGGGGG'' \<and> Color_parse ''#GGGGGG'' \<noteq> sentinel \<and>
   Color_parse ''#0000000'' = \<lparr> r = Some 0, g = Some 0, b = Some 0, a = Some 1 \<rparr> \<and>
   Color_parse ''#GGGGGG'' = \<lparr> r = None, g = None, b = None, a = Some 1 \<rparr>"
  by (simp add: wellFormedColor_def sentinel_def parse_eval)

subsection \<open>Font styles\<close>

lemma foldl_fontStyleSegment:
  "foldl fontStyleSegment statements segments =
   statements @ concat (map fontStyleDeclaration segments)"
  by (induction segments arbitrary: statements)
     (simp_all add: fontStyleSegment_def fontStyleDeclaration_def)

lemma settingStatement_append:
  "settingStatement statements kv = statements @ settingContribution kv"
  by (cases kv) (simp add: settingStatement_def settingContribution_def foldl_fontStyleSegment)

lemma foldl_settingStatement:
  "foldl settingStatement statements st = statements @ concat (map settingContribution st)"
proof (induction st arbitrary: statements)
  case Nil
  then show ?case by simp
next
  case (Cons kv st)
  show ?case
    by (simp add: Cons.IH settingStatement_append [of statements kv])
qed

text \<open>
  C5, as amended. The value of \<^verbatim>\<open>fontStyle\<close> is cut at each single space character;
  each piece that is \<^verbatim>\<open>italic\<close>, \<^verbatim>\<open>bold\<close> or \<^verbatim>\<open>underline\<close> adds its one declaration,
  in the order of the pieces, between the statements of the properties before and after
  it, and any other piece adds nothing. \<^verbatim>\<open>bold italic\<close> gives the font-weight
  declaration and then the font-style declaration.
\<close>

theorem fontStyle_space_separated_tokens:
  "settingsStatements (before @ [(''fontStyle'', v)] @ after) =
     settingsStatements before @ concat (map fontStyleDeclaration (split CHR '' '' v)) @
     settingsStatements after \<and>
   settingsToStatements [(''fontStyle'', ''bold italic'')] =
     ''font-weight: bold; font-style: italic;''"
  by (simp add: settingsStatements_def settingsToStatements_def foldl_settingStatement
      settingContribution_def settingStatement_def foldl_fontStyleSegment
      fontStyleDeclaration_def)

text \<open>
  C5 as stated fails for white space other than the space character: the tokens
  \<^verbatim>\<open>bold\<close> and \<^verbatim>\<open>italic\<close> separated by a tab give no declaration at all.
\<close>

theorem fontStyle_whitespace_counterexample:
  "whitespaceTokens (''bold'' @ [CHR 0x09] @ ''italic'') = [''bold'', ''italic''] \<and>
   settingsStatements [(''fontStyle'', ''bold'' @ [CHR 0x09] @ ''italic'')] = [] \<and>
   settingsStatements [(''fontStyle'', ''bold'' @ [CHR 0x09] @ ''italic'')] \<noteq>
     concat (map fontStyleDeclaration (whitespaceTokens (''bold'' @ [CHR 0x09] @ ''italic'')))"
  by (simp add: whitespaceTokens_def isWhiteSpace_def settingsStatements_def
      settingStatement_def fontStyleSegment_def fontStyleDeclaration_def)

subsection \<open>The color theme compiler\<close>

lemma forEachSetting_later:
  "forEachSetting sel (Suc i) xs (rules, es) =
     (if None \<in> set xs then Inl TypeError
      else Inr (rules @ concat (map (\<lambda>x. entryRules sel (the x)) xs), es))"
proof (induction xs arbitrary: i rules)
  case Nil
  then show ?case by simp
next
  case (Cons x xs)
  show ?case
  proof (cases x)
    case None
    then show ?thesis by simp
  next
    case (Some s)
    then show ?thesis by (simp add: Cons.IH)
  qed
qed

lemma forEachSetting_same_rules:
  assumes "scopeTruthy (scope s1)" "scopeTruthy (scope s2)"
    and "entryRules sel s1 = entryRules sel s2"
  shows "forEachSetting sel i (pre @ Some s1 # post) st =
         forEachSetting sel i (pre @ Some s2 # post) st"
proof (induction pre arbitrary: i st)
  case Nil
  then show ?case using assms by (cases st) simp
next
  case (Cons x pre)
  show ?case
  proof (cases x)
    case None
    then show ?thesis by simp
  next
    case (Some s)
    then show ?thesis by (cases st) (simp add: Cons.IH)
  qed
qed

lemma entryRules_string:
  "str \<noteq> [] \<Longrightarrow>
   entryRules sel (s \<lparr> scope := Some (ScopeString str), settings := Some st \<rparr>) =
     map (tokenRule sel (settingsToStatements st)) (split CHR '','' str)"
  by (simp add: entryRules_def scopeTruthy_def tokenRule_def)

lemma entryRules_array:
  "entryRules sel (s \<lparr> scope := Some (ScopeArray tokens), settings := Some st \<rparr>) =
     map (tokenRule sel (settingsToStatements st)) tokens"
  by (simp add: entryRules_def scopeTruthy_def tokenRule_def)

lemma tokenRule_trim:
  "map trim xs = map trim ys \<Longrightarrow> map (tokenRule sel stm) xs = map (tokenRule sel stm) ys"
proof (induction xs arbitrary: ys)
  case Nil
  then show ?case by simp
next
  case (Cons x xs)
  then obtain y ys' where "ys = y # ys'" by (cases ys) auto
  with Cons show ?case by (simp add: tokenRule_def)
qed

lemma entryRules_same:
  assumes "str \<noteq> []" "map trim tokens = map trim (split CHR '','' str)"
  shows "entryRules sel (s \<lparr> scope := Some (ScopeString str) \<rparr>) =
         entryRules sel (s \<lparr> scope := Some (ScopeArray tokens) \<rparr>)"
proof (cases "settings s")
  case None
  then show ?thesis by (simp add: entryRules_def)
next
  case (Some st)
  have "entryRules sel (s \<lparr> scope := Some (ScopeString str) \<rparr>) =
      map (tokenRule sel (settingsToStatements st)) (split CHR '','' str)"
    using Some assms(1) by (simp add: entryRules_def scopeTruthy_def tokenRule_def)
  moreover have "entryRules sel (s \<lparr> scope := Some (ScopeArray tokens) \<rparr>) =
      map (tokenRule sel (settingsToStatements st)) tokens"
    using Some by (simp add: entryRules_def scopeTruthy_def tokenRule_def)
  ultimately show ?thesis using tokenRule_trim [OF assms(2)] by simp
qed

lemma processThemeObject_settings:
  "doc_settings d1 = doc_settings d2 \<Longrightarrow>
   processThemeObject h themeId d1 = processThemeObject h themeId d2"
  by (simp add: processThemeObject_def)

text \<open>
  C2. An entry whose scope is present (a string that is not empty) compiles, at any
  position of any document, to the same style sheet as the entry whose scope is the array
  of the same tokens, the tokens being those between the commas, with or without their
  surrounding white space. With settings present, the entry gives one rule for each token,
  in order, the token trimmed and its spaces replaced by dots; so the single token
  \<^verbatim>\<open>string quoted\<close> gives the one rule of class \<^verbatim>\<open>string.quoted\<close>.
\<close>

theorem scope_string_same_as_array:
  assumes "str \<noteq> []" and "map trim tokens = map trim (split CHR '','' str)"
  shows "processThemeObject h themeId
           (doc \<lparr> doc_settings :=
              Some (pre @ [Some (s \<lparr> scope := Some (ScopeString str) \<rparr>)] @ post) \<rparr>) =
         processThemeObject h themeId
           (doc \<lparr> doc_settings :=
              Some (pre @ [Some (s \<lparr> scope := Some (ScopeArray tokens) \<rparr>)] @ post) \<rparr>) \<and>
         entryRules sel (s \<lparr> scope := Some (ScopeString str), settings := Some st \<rparr>) =
           map (tokenRule sel (settingsToStatements st)) (split CHR '','' str) \<and>
         entryRules sel (s \<lparr> scope := Some (ScopeArray tokens), settings := Some st \<rparr>) =
           map (tokenRule sel (settingsToStatements st)) tokens \<and>
         entryRules sel
           (s \<lparr> scope := Some (ScopeString ''string quoted''), settings := Some st \<rparr>) =
           [''.monaco-editor.'' @ sel @ '' .token.string.quoted { '' @
            settingsToStatements st @ '' }'']"
proof (intro conjI)
  let ?s1 = "s \<lparr> scope := Some (ScopeString str) \<rparr>"
  let ?s2 = "s \<lparr> scope := Some (ScopeArray tokens) \<rparr>"
  have t1: "scopeTruthy (scope ?s1)" and t2: "scopeTruthy (scope ?s2)"
    using assms(1) by (simp_all add: scopeTruthy_def)
  have "forEachSetting (themeSelectorOf h themeId) 0 (pre @ Some ?s1 # post) ([], Some []) =
        forEachSetting (themeSelectorOf h themeId) 0 (pre @ Some ?s2 # post) ([], Some [])"
    by (rule forEachSetting_same_rules [OF t1 t2 entryRules_same [OF assms]])
  then show "processThemeObject h themeId
        (doc \<lparr> doc_settings := Some (pre @ [Some ?s1] @ post) \<rparr>) =
      processThemeObject h themeId (doc \<lparr> doc_settings := Some (pre @ [Some ?s2] @ post) \<rparr>)"
    by (simp add: processThemeObject_def)
next
  show "entryRules sel
        (s \<lparr> scope := Some (ScopeString ''string quoted''), settings := Some st \<rparr>) =
      [''.monaco-editor.'' @ sel @ '' .token.string.quoted { '' @
       settingsToStatements st @ '' }'']"
    by (simp add: entryRules_def scopeTruthy_def trim_def replaceSpaces_def isWhiteSpace_def)
qed (simp_all add: entryRules_string [OF assms(1)] entryRules_array)

theorem scope_string_same_as_array_witness:
  "''string, string.quoted'' \<noteq> [] \<and>
   map trim [''string'', ''string.quoted''] = map trim (split CHR '','' ''string, string.quoted'') \<and>
   processThemeObject exampleHost ''vs ext-a''
     (exampleDocB \<lparr> doc_settings := Some ([Some exampleDefaults] @
        [Some (exampleEntry \<lparr> scope := Some (ScopeString ''string, string.quoted'') \<rparr>)] @ []) \<rparr>) =
   processThemeObject exampleHost ''vs ext-a''
     (exampleDocB \<lparr> doc_settings := Some ([Some exampleDefaults] @
        [Some (exampleEntry \<lparr> scope := Some (ScopeArray [''string'', ''string.quoted'']) \<rparr>)] @ []) \<rparr>) \<and>
   processThemeObject exampleHost ''vs ext-a''
     (exampleDocB \<lparr> doc_settings := Some ([Some exampleDefaults] @
        [Some (exampleEntry \<lparr> scope := Some (ScopeArray [''string'', ''string.quoted'']) \<rparr>)] @ []) \<rparr>) =
   Inr (''.monaco-editor.vs.ext-a .token.string { color: rgba(255, 255, 255, 0.5); font-weight: bold; font-style: italic; }'' @ [CHR 0x0A] @
        ''.monaco-editor.vs.ext-a .token.string.quoted { color: rgba(255, 255, 255, 0.5); font-weight: bold; font-style: italic; }'' @ [CHR 0x0A] @
        ''.monaco-editor.vs.ext-a .token { color: rgba(0, 0, 0, 1); }'')"
proof -
  have h1: "''string, string.quoted'' \<noteq> []" by simp
  have h2: "map trim [''string'', ''string.quoted''] =
      map trim (split CHR '','' ''string, string.quoted'')"
    by code_simp
  have v: "processThemeObject exampleHost ''vs ext-a''
     (exampleDocB \<lparr> doc_settings := Some ([Some exampleDefaults] @
        [Some (exampleEntry \<lparr> scope := Some (ScopeArray [''string'', ''string.quoted'']) \<rparr>)] @ []) \<rparr>) =
   Inr (''.monaco-editor.vs.ext-a .token.string { color: rgba(255, 255, 255, 0.5); font-weight: bold; font-style: italic; }'' @ [CHR 0x0A] @
        ''.monaco-editor.vs.ext-a .token.string.quoted { color: rgba(255, 255, 255, 0.5); font-weight: bold; font-style: italic; }'' @ [CHR 0x0A] @
        ''.monaco-editor.vs.ext-a .token { color: rgba(0, 0, 0, 1); }'')"
    by code_simp
  from scope_string_same_as_array [OF h1 h2, where h = exampleHost and themeId = "''vs ext-a''"
      and doc = exampleDocB and pre = "[Some exampleDefaults]" and s = exampleEntry and post = "[]"]
  show ?thesis using h1 h2 v by blast
qed

text \<open>
  C3. Compiling a document whose first entry is \<open>s\<close>: when \<open>s\<close> has a scope, \<open>s\<close>
  gives its scoped rules like every entry after it, and the editor rules are those of
  the empty default record; when \<open>s\<close> has no scope (none, or the empty string), \<open>s\<close>
  gives no scoped rule and the editor rules are those of its settings (the compiler
  throws when it has no settings either). An \<^verbatim>\<open>undefined\<close> element among the later
  entries makes the compiler throw in both cases.
\<close>

theorem index0_defaults_iff_no_scope:
  "processThemeObject h themeId (doc \<lparr> doc_settings := Some (Some s # rest) \<rparr>) =
     (if None \<in> set rest then Inl TypeError
      else if scopeTruthy (scope s)
      then Inr (join [CHR 0x0A]
             ((entryRules (themeSelectorOf h themeId) s @
               concat (map (\<lambda>x. entryRules (themeSelectorOf h themeId) (the x)) rest)) @
              editorRules (themeSelectorOf h themeId) []))
      else (case settings s of
              None \<Rightarrow> Inl TypeError
            | Some editorSettings \<Rightarrow>
                Inr (join [CHR 0x0A]
                  (concat (map (\<lambda>x. entryRules (themeSelectorOf h themeId) (the x)) rest) @
                   editorRules (themeSelectorOf h themeId) editorSettings))))"
  by (simp add: processThemeObject_def Let_def forEachSetting_later split: option.splits)

theorem index0_defaults_iff_no_scope_witness:
  "processThemeObject exampleHost ''vs ext-a''
     (exampleDocB \<lparr> doc_settings := Some (Some exampleDefaults # [Some exampleEntry]) \<rparr>) =
   Inr (''.monaco-editor.vs.ext-a .token.string { color: rgba(255, 255, 255, 0.5); font-weight: bold; font-style: italic; }'' @ [CHR 0x0A] @
        ''.monaco-editor.vs.ext-a .token.string.quoted { color: rgba(255, 255, 255, 0.5); font-weight: bold; font-style: italic; }'' @ [CHR 0x0A] @
        ''.monaco-editor.vs.ext-a .token { color: rgba(0, 0, 0, 1); }'') \<and>
   processThemeObject exampleHost ''vs ext-a''
     (exampleDocB \<lparr> doc_settings := Some (Some exampleEntry # [Some exampleDefaults]) \<rparr>) =
   Inr (''.monaco-editor.vs.ext-a .token.string { color: rgba(255, 255, 255, 0.5); font-weight: bold; font-style: italic; }'' @ [CHR 0x0A] @
        ''.monaco-editor.vs.ext-a .token.string.quoted { color: rgba(255, 255, 255, 0.5); font-weight: bold; font-style: italic; }'')"
proof -
  let ?sel = "themeSelectorOf exampleHost ''vs ext-a''"
  have "processThemeObject exampleHost ''vs ext-a''
     (exampleDocB \<lparr> doc_settings := Some (Some exampleDefaults # [Some exampleEntry]) \<rparr>) =
     (if None \<in> set [Some exampleEntry] then Inl TypeError
      else if scopeTruthy (scope exampleDefaults)
      then Inr (join [CHR 0x0A]
             ((entryRules ?sel exampleDefaults @
               concat (map (\<lambda>x. entryRules ?sel (the x)) [Some exampleEntry])) @
              editorRules ?sel []))
      else (case settings exampleDefaults of
              None \<Rightarrow> Inl TypeError
            | Some editorSettings \<Rightarrow>
                Inr (join [CHR 0x0A]
                  (concat (map (\<lambda>x. entryRules ?sel (the x)) [Some exampleEntry]) @
                   editorRules ?sel editorSettings))))"
    by (rule index0_defaults_iff_no_scope)
  also have "\<dots> = Inr (''.monaco-editor.vs.ext-a .token.string { color: rgba(255, 255, 255, 0.5); font-weight: bold; font-style: italic; }'' @ [CHR 0x0A] @
        ''.monaco-editor.vs.ext-a .token.string.quoted { color: rgba(255, 255, 255, 0.5); font-weight: bold; font-style: italic; }'' @ [CHR 0x0A] @
        ''.monaco-editor.vs.ext-a .token { color: rgba(0, 0, 0, 1); }'')"
    by code_simp
  finally have first: "processThemeObject exampleHost ''vs ext-a''
     (exampleDocB \<lparr> doc_settings := Some (Some exampleDefaults # [Some exampleEntry]) \<rparr>) =
   Inr (''.monaco-editor.vs.ext-a .token.string { color: rgba(255, 255, 255, 0.5); font-weight: bold; font-style: italic; }'' @ [CHR 0x0A] @
        ''.monaco-editor.vs.ext-a .token.string.quoted { color: rgba(255, 255, 255, 0.5); font-weight: bold; font-style: italic; }'' @ [CHR 0x0A] @
        ''.monaco-editor.vs.ext-a .token { color: rgba(0, 0, 0, 1); }'')" .
  have "processThemeObject exampleHost ''vs ext-a''
     (exampleDocB \<lparr> doc_settings := Some (Some exampleEntry # [Some exampleDefaults]) \<rparr>) =
     (if None \<in> set [Some exampleDefaults] then Inl TypeError
      else if scopeTruthy (scope exampleEntry)
      then Inr (join [CHR 0x0A]
             ((entryRules ?sel exampleEntry @
               concat (map (\<lambda>x. entryRules ?sel (the x)) [Some exampleDefaults])) @
              editorRules ?sel []))
      else (case settings exampleEntry of
              None \<Rightarrow> Inl TypeError
            | Some editorSettings \<Rightarrow>
                Inr (join [CHR 0x0A]
                  (concat (map (\<lambda>x. entryRules ?sel (the x)) [Some exampleDefaults]) @
                   editorRules ?sel editorSettings))))"
    by (rule index0_defaults_iff_no_scope)
  also have "\<dots> = Inr (''.monaco-editor.vs.ext-a .token.string { color: rgba(255, 255, 255, 0.5); font-weight: bold; font-style: italic; }'' @ [CHR 0x0A] @
        ''.monaco-editor.vs.ext-a .token.string.quoted { color: rgba(255, 255, 255, 0.5); font-weight: bold; font-style: italic; }'')"
    by code_simp
  finally show ?thesis using first by blast
qed

subsection \<open>Loading a color theme\<close>

lemma loadThemeDocument_more_fuel:
  "loadThemeDocument h fuel p = Some res \<Longrightarrow> loadThemeDocument h (fuel + k) p = Some res"
proof (induction fuel arbitrary: p res)
  case 0
  then show ?case by simp
next
  case (Suc fuel)
  show ?case
  proof (cases "loadThemeDocument h fuel
      (joinPath h (dirname h p) (the (doc_include (snd (parseThemeJson h (the (readFile h p)))))))")
    case None
    with Suc.prems show ?thesis
      by (auto simp add: Let_def split: option.splits if_splits)
  next
    case (Some inner)
    from Suc.IH [OF Some] Some Suc.prems show ?thesis
      by (auto simp add: Let_def split: option.splits if_splits sum.splits)
  qed
qed

lemma forEachSetting_undefined:
  "None \<in> set xs \<Longrightarrow> forEachSetting sel i xs st = Inl TypeError"
proof (induction xs arbitrary: i st)
  case Nil
  then show ?case by simp
next
  case (Cons x xs)
  show ?case
  proof (cases x)
    case None
    then show ?thesis by simp
  next
    case (Some s)
    with Cons.prems have "None \<in> set xs" by simp
    then show ?thesis using Some Cons.IH by (cases st) simp
  qed
qed

lemma processThemeObject_undefined:
  "doc_settings d = Some xs \<Longrightarrow> None \<in> set xs \<Longrightarrow>
   processThemeObject h themeId d = Inl TypeError"
  by (simp add: processThemeObject_def forEachSetting_undefined)

text \<open>
  C1, as amended. For a document read from a path with the extension \<^verbatim>\<open>.json\<close>,
  parsed without diagnostics, whose \<^verbatim>\<open>include\<close> is not empty, the load is decided by
  the load of the document at the path joined from the directory of the including path
  and the \<^verbatim>\<open>include\<close>: it does not end or fails as that load does; it fails with a
  \<^verbatim>\<open>TypeError\<close> when the included document has no settings; and otherwise it gives the
  including document with the included settings put before its own settings, or before
  one \<^verbatim>\<open>undefined\<close> element when it has none. With settings in both documents the
  result compiles as any document with the two sequences joined does; with the
  \<^verbatim>\<open>undefined\<close> element the compiler throws. A document read from a path with another
  extension and parsed as a property list without diagnostics is returned as parsed,
  whatever its \<^verbatim>\<open>include\<close> is.
\<close>

theorem include_prepends_settings:
  assumes "readFile h p = Some content"
  shows
    "(extname h p = ''.json'' \<and> parseThemeJson h content = ([], docA) \<and>
      doc_include docA = Some incl \<and> incl \<noteq> [] \<longrightarrow>
        loadThemeDocument h (Suc fuel) p =
          (case loadThemeDocument h fuel (joinPath h (dirname h p) incl) of
             None \<Rightarrow> None
           | Some (Inl e) \<Rightarrow> Some (Inl e)
           | Some (Inr docB) \<Rightarrow>
               (case doc_settings docB of
                  None \<Rightarrow> Some (Inl TypeError)
                | Some included \<Rightarrow>
                    Some (Inr (docA \<lparr> doc_settings :=
                      Some (included @ (case doc_settings docA of
                                          Some own \<Rightarrow> own | None \<Rightarrow> [None])) \<rparr>))))) \<and>
     (extname h p = ''.json'' \<and> parseThemeJson h content = ([], docA) \<and>
      doc_include docA = Some incl \<and> incl \<noteq> [] \<and>
      loadThemeDocument h fuel (joinPath h (dirname h p) incl) = Some (Inr docB) \<and>
      doc_settings docB = Some included \<and> doc_settings docA = Some own \<and>
      doc_settings docD = Some (included @ own) \<longrightarrow>
        loadThemeDocument h (Suc fuel) p =
          Some (Inr (docA \<lparr> doc_settings := Some (included @ own) \<rparr>)) \<and>
        processThemeObject h themeId (docA \<lparr> doc_settings := Some (included @ own) \<rparr>) =
          processThemeObject h themeId docD) \<and>
     processThemeObject h themeId (docA \<lparr> doc_settings := Some (included @ [None]) \<rparr>) =
       Inl TypeError \<and>
     (extname h p \<noteq> ''.json'' \<and> parsePlist h content = ([], docP) \<longrightarrow>
        loadThemeDocument h (Suc fuel) p = Some (Inr docP))"
proof (intro conjI impI)
  show "processThemeObject h themeId (docA \<lparr> doc_settings := Some (included @ [None]) \<rparr>) =
       Inl TypeError"
    by (rule processThemeObject_undefined [where xs = "included @ [None]"]) simp_all
qed (use assms in \<open>auto simp add: truthy_def processThemeObject_def
      split: option.splits sum.splits\<close>)

theorem include_prepends_settings_witness:
  "readFile exampleHost ''/ext/themes/a.json'' = Some ''A'' \<and>
   extname exampleHost ''/ext/themes/a.json'' = ''.json'' \<and>
   parseThemeJson exampleHost ''A'' = ([], exampleDocA) \<and>
   doc_include exampleDocA = Some ''b.json'' \<and>
   loadThemeDocument exampleHost 1
     (joinPath exampleHost (dirname exampleHost ''/ext/themes/a.json'') ''b.json'') =
     Some (Inr exampleDocB) \<and>
   doc_settings exampleDocB = Some [Some exampleDefaults] \<and>
   doc_settings exampleDocA = Some [Some exampleEntry] \<and>
   loadThemeDocument exampleHost (Suc 1) ''/ext/themes/a.json'' =
     Some (Inr (exampleDocA \<lparr> doc_settings := Some ([Some exampleDefaults] @ [Some exampleEntry]) \<rparr>)) \<and>
   processThemeObject exampleHost ''vs ext-a''
     (exampleDocA \<lparr> doc_settings := Some ([Some exampleDefaults] @ [Some exampleEntry]) \<rparr>) =
   processThemeObject exampleHost ''vs ext-a''
     \<lparr> doc_name = ''D'', doc_include = None,
       doc_settings = Some ([Some exampleDefaults] @ [Some exampleEntry]) \<rparr> \<and>
   processThemeObject exampleHost ''vs ext-a''
     (exampleDocA \<lparr> doc_settings := Some ([Some exampleDefaults] @ [None]) \<rparr>) = Inl TypeError \<and>
   readFile exampleHost ''/ext/themes/a.tmTheme'' = Some ''A'' \<and>
   extname exampleHost ''/ext/themes/a.tmTheme'' \<noteq> ''.json'' \<and>
   parsePlist exampleHost ''A'' = ([], exampleDocA) \<and>
   loadThemeDocument exampleHost (Suc 1) ''/ext/themes/a.tmTheme'' = Some (Inr exampleDocA)"
proof -
  have h1: "extname exampleHost ''/ext/themes/a.json'' = ''.json''" by code_simp
  have h2: "readFile exampleHost ''/ext/themes/a.json'' = Some ''A''" by code_simp
  have h3: "parseThemeJson exampleHost ''A'' = ([], exampleDocA)" by (simp add: exampleHost_def)
  have h4: "doc_include exampleDocA = Some ''b.json''" by (simp add: exampleDocA_def)
  have h5: "''b.json'' \<noteq> []" by simp
  have h6: "loadThemeDocument exampleHost 1
     (joinPath exampleHost (dirname exampleHost ''/ext/themes/a.json'') ''b.json'') =
     Some (Inr exampleDocB)" by code_simp
  have h7: "doc_settings exampleDocB = Some [Some exampleDefaults]" by (simp add: exampleDocB_def)
  have h8: "doc_settings exampleDocA = Some [Some exampleEntry]" by (simp add: exampleDocA_def)
  have h9: "doc_settings \<lparr> doc_name = ''D'', doc_include = None,
       doc_settings = Some ([Some exampleDefaults] @ [Some exampleEntry]) \<rparr> =
     Some ([Some exampleDefaults] @ [Some exampleEntry])" by simp
  have g1: "extname exampleHost ''/ext/themes/a.tmTheme'' \<noteq> ''.json''" by code_simp
  have g2: "readFile exampleHost ''/ext/themes/a.tmTheme'' = Some ''A''" by code_simp
  have g3: "parsePlist exampleHost ''A'' = ([], exampleDocA)" by (simp add: exampleHost_def)
  note json = include_prepends_settings [OF h2, where docA = exampleDocA and incl = "''b.json''"
      and fuel = 1 and docB = exampleDocB and included = "[Some exampleDefaults]"
      and own = "[Some exampleEntry]" and themeId = "''vs ext-a''"
      and docD = "\<lparr> doc_name = ''D'', doc_include = None,
        doc_settings = Some ([Some exampleDefaults] @ [Some exampleEntry]) \<rparr>"]
  note plist = include_prepends_settings [OF g2, where docP = exampleDocA and fuel = 1]
  from json h1 h3 h4 h5 h6 h7 h8 h9
  have a: "loadThemeDocument exampleHost (Suc 1) ''/ext/themes/a.json'' =
     Some (Inr (exampleDocA \<lparr> doc_settings := Some ([Some exampleDefaults] @ [Some exampleEntry]) \<rparr>)) \<and>
   processThemeObject exampleHost ''vs ext-a''
     (exampleDocA \<lparr> doc_settings := Some ([Some exampleDefaults] @ [Some exampleEntry]) \<rparr>) =
   processThemeObject exampleHost ''vs ext-a''
     \<lparr> doc_name = ''D'', doc_include = None,
       doc_settings = Some ([Some exampleDefaults] @ [Some exampleEntry]) \<rparr>"
    by blast
  from json have b: "processThemeObject exampleHost ''vs ext-a''
     (exampleDocA \<lparr> doc_settings := Some ([Some exampleDefaults] @ [None]) \<rparr>) = Inl TypeError"
    by blast
  from plist g1 g3
  have c: "loadThemeDocument exampleHost (Suc 1) ''/ext/themes/a.tmTheme'' = Some (Inr exampleDocA)"
    by blast
  from a b c h1 h2 h3 h4 h6 h7 h8 g1 g2 g3 show ?thesis by blast
qed

text \<open>
  C1 as stated fails for a document in the property list format: its \<^verbatim>\<open>include\<close> is
  not followed, although the included document exists and loads, and it compiles to a
  style sheet other than that of the two settings sequences joined.
\<close>

theorem include_ignored_in_plist_counterexample:
  "loadThemeDocument exampleHost 2 ''/ext/themes/a.tmTheme'' = Some (Inr exampleDocA) \<and>
   doc_include exampleDocA = Some ''b.json'' \<and>
   doc_settings exampleDocA = Some [Some exampleEntry] \<and>
   loadThemeDocument exampleHost 2
     (joinPath exampleHost (dirname exampleHost ''/ext/themes/a.tmTheme'') ''b.json'') =
     Some (Inr exampleDocB) \<and>
   doc_settings exampleDocB = Some [Some exampleDefaults] \<and>
   processThemeObject exampleHost ''vs ext-a'' exampleDocA \<noteq>
   processThemeObject exampleHost ''vs ext-a''
     (exampleDocA \<lparr> doc_settings := Some [Some exampleDefaults, Some exampleEntry] \<rparr>)"
proof -
  have "loadThemeDocument exampleHost 2 ''/ext/themes/a.tmTheme'' = Some (Inr exampleDocA)"
    by code_simp
  moreover have "doc_include exampleDocA = Some ''b.json''" by (simp add: exampleDocA_def)
  moreover have "doc_settings exampleDocA = Some [Some exampleEntry]" by (simp add: exampleDocA_def)
  moreover have "loadThemeDocument exampleHost 2
     (joinPath exampleHost (dirname exampleHost ''/ext/themes/a.tmTheme'') ''b.json'') =
     Some (Inr exampleDocB)" by code_simp
  moreover have "doc_settings exampleDocB = Some [Some exampleDefaults]" by (simp add: exampleDocB_def)
  moreover have "processThemeObject exampleHost ''vs ext-a'' exampleDocA \<noteq>
   processThemeObject exampleHost ''vs ext-a''
     (exampleDocA \<lparr> doc_settings := Some [Some exampleDefaults, Some exampleEntry] \<rparr>)"
    by code_simp
  ultimately show ?thesis by blast
qed

subsection \<open>The file icon compiler\<close>

text \<open>
  C6. A file name for which \<^verbatim>\<open>Paths.extname\<close> returns the empty string gets the
  selector made of its lower-cased name and of the empty extension, \<^verbatim>\<open>CSS.escape\<close>
  leaving the empty string as it is. For \<^verbatim>\<open>Makefile\<close>, which \<^verbatim>\<open>CSS.escape\<close> leaves
  unchanged once lower-cased, the classes are
  \<^verbatim>\<open>makefile-name-file-icon.-ext-file-icon.file-icon\<close>, and the icon set with the one
  entry \<^verbatim>\<open>Makefile\<close> compiles to the one rule of that selector.
\<close>

theorem extensionless_fileName_selector:
  assumes "extname h fileName = []" and "escapeCSS h [] = []"
  shows "fileNameSelector h qualifier fileName =
           qualifier @ '' .'' @ escapeCSS h (toLowerCase fileName) @
           ''-name-file-icon.-ext-file-icon.file-icon'' \<and>
         (fileName = ''Makefile'' \<and> escapeCSS h ''makefile'' = ''makefile'' \<longrightarrow>
            fileNameSelector h qualifier fileName =
              qualifier @ '' .makefile-name-file-icon.-ext-file-icon.file-icon'' \<and>
            collectSelectors h (Some exampleIcons) None [] =
              Inr [(''defA'', [''.show-file-icons .makefile-name-file-icon.-ext-file-icon.file-icon''])] \<and>
            processFileIconsObject h iconSetId fileIconsPath exampleIcons =
              Inr (''.show-file-icons .makefile-name-file-icon.-ext-file-icon.file-icon'' @
                   '' { background-image: url('' @ [CHR 0x22] @
                   joinPath h (dirname h fileIconsPath) ''make.svg'' @ [CHR 0x22] @ ''); }''))"
proof -
  have sel: "fileNameSelector h q fileName =
      q @ '' .'' @ escapeCSS h (toLowerCase fileName) @ ''-name-file-icon.-ext-file-icon.file-icon''" for q
    using assms by (simp add: fileNameSelector_def toLowerCase_def)
  have lower: "toLowerCase ''Makefile'' = ''makefile''"
    by code_simp
  have idx: "\<not> isArrayIndex ''Makefile''" "\<not> isArrayIndex ''defA''"
    by (simp_all add: isArrayIndex_def isDigitIn_def digitValue_def)
  have proto: "''defA'' \<notin> set objectPrototypeKeys"
    by (simp add: objectPrototypeKeys_def)
  {
    assume m: "fileName = ''Makefile''" and e: "escapeCSS h ''makefile'' = ''makefile''"
    have c: "collectSelectors h (Some exampleIcons) None [] =
        Inr [(''defA'', [''.show-file-icons .makefile-name-file-icon.-ext-file-icon.file-icon''])]"
      using sel [of "''.show-file-icons''"] m e lower idx proto
      by (simp add: collectSelectors_def selectorCalls_def exampleIcons_def forIn_def
          addSelector_def truthy_def)
    have d: "iconDefinitions exampleIcons = Some [(''defA'', \<lparr> iconPath = Some ''make.svg'' \<rparr>)]"
      "light exampleIcons = None" "highContrast exampleIcons = None"
      by (simp_all add: exampleIcons_def)
    have n: "collectSelectors h None base tab = Inr tab" for base tab
      by (simp add: collectSelectors_def)
    have "processFileIconsObject h iconSetId fileIconsPath exampleIcons =
              Inr (''.show-file-icons .makefile-name-file-icon.-ext-file-icon.file-icon'' @
                   '' { background-image: url('' @ [CHR 0x22] @
                   joinPath h (dirname h fileIconsPath) ''make.svg'' @ [CHR 0x22] @ ''); }'')"
      using idx
      by (simp add: processFileIconsObject_def c d n outputRules_def forIn_def outputStep_def
          iconRule_def truthy_def)
    note c this
  }
  with sel [of qualifier] lower show ?thesis by auto
qed

theorem extensionless_fileName_selector_witness:
  "extname exampleHost ''Makefile'' = [] \<and> escapeCSS exampleHost [] = [] \<and>
   escapeCSS exampleHost ''makefile'' = ''makefile'' \<and>
   fileNameSelector exampleHost ''.show-file-icons'' ''Makefile'' =
     ''.show-file-icons'' @ '' .makefile-name-file-icon.-ext-file-icon.file-icon'' \<and>
   collectSelectors exampleHost (Some exampleIcons) None [] =
     Inr [(''defA'', [''.show-file-icons .makefile-name-file-icon.-ext-file-icon.file-icon''])] \<and>
   processFileIconsObject exampleHost ''seti'' ''/ext/icons/seti.json'' exampleIcons =
     Inr (''.show-file-icons .makefile-name-file-icon.-ext-file-icon.file-icon'' @
          '' { background-image: url('' @ [CHR 0x22] @ ''/ext/icons/make.svg'' @ [CHR 0x22] @
          ''); }'')"
proof -
  have h1: "extname exampleHost ''Makefile'' = []" by code_simp
  have h2: "escapeCSS exampleHost [] = []" by (simp add: exampleHost_def)
  have h3: "escapeCSS exampleHost ''makefile'' = ''makefile''" by (simp add: exampleHost_def)
  have p: "joinPath exampleHost (dirname exampleHost ''/ext/icons/seti.json'') ''make.svg'' =
      ''/ext/icons/make.svg''" by code_simp
  note t = extensionless_fileName_selector [OF h1 h2, where qualifier = "''.show-file-icons''"
      and iconSetId = "''seti''" and fileIconsPath = "''/ext/icons/seti.json''"]
  from t h3 have "fileNameSelector exampleHost ''.show-file-icons'' ''Makefile'' =
     ''.show-file-icons'' @ '' .makefile-name-file-icon.-ext-file-icon.file-icon'' \<and>
   collectSelectors exampleHost (Some exampleIcons) None [] =
     Inr [(''defA'', [''.show-file-icons .makefile-name-file-icon.-ext-file-icon.file-icon''])] \<and>
   processFileIconsObject exampleHost ''seti'' ''/ext/icons/seti.json'' exampleIcons =
     Inr (''.show-file-icons .makefile-name-file-icon.-ext-file-icon.file-icon'' @
          '' { background-image: url('' @ [CHR 0x22] @
          joinPath exampleHost (dirname exampleHost ''/ext/icons/seti.json'') ''make.svg'' @
          [CHR 0x22] @ ''); }'')"
    by blast
  then show ?thesis using h1 h2 h3 unfolding p by blast
qed

lemma outputStep_append:
  "outputStep h p defs cssRules entry = cssRules @ outputStep h p defs [] entry"
  by (simp add: outputStep_def split: option.splits)

lemma foldl_outputStep:
  "foldl (outputStep h p defs) cssRules entries =
   cssRules @ concat (map (outputStep h p defs []) entries)"
proof (induction entries arbitrary: cssRules)
  case Nil
  then show ?case by simp
next
  case (Cons e entries)
  show ?case
    by (simp add: Cons.IH outputStep_append [of h p defs cssRules e])
qed

lemma outputStep_definitionRules:
  assumes "distinct (map fst tab)" "entry \<in> set tab"
  shows "outputStep h p defs [] entry = definitionRules h p defs tab (fst entry)"
proof -
  from assms have "map_of tab (fst entry) = Some (snd entry)"
    by (cases entry) simp
  then show ?thesis
    by (simp add: outputStep_def definitionRules_def iconRule_def truthy_def split: option.splits)
qed

lemma mset_forIn: "mset (forIn obj) = mset obj"
  by (simp add: forIn_def)

lemma set_forIn: "set (forIn obj) = set obj"
  using mset_forIn [of obj] by (metis set_mset_mset)

lemma map_fst_push:
  "map fst (map (\<lambda>kv. if fst kv = k then (fst kv, snd kv @ [selector]) else kv) tab) = map fst tab"
  by (induction tab) auto

lemma addSelector_distinct:
  assumes "addSelector selector defId tab = Inr tab'" "distinct (map fst tab)"
  shows "distinct (map fst tab')"
proof (cases "truthy defId")
  case False
  with assms show ?thesis by (simp add: addSelector_def)
next
  case True
  show ?thesis
  proof (cases "map_of tab (the defId)")
    case None
    then have "the defId \<notin> fst ` set tab" by (simp add: map_of_eq_None_iff)
    moreover from assms(1) True None have "tab' = tab @ [(the defId, [selector])]"
      by (simp add: addSelector_def split: if_splits)
    ultimately show ?thesis using assms(2) by simp
  next
    case (Some list)
    with assms(1) True have "tab' =
        map (\<lambda>kv. if fst kv = the defId then (fst kv, snd kv @ [selector]) else kv) tab"
      by (simp add: addSelector_def)
    then show ?thesis using assms(2) by (simp only: map_fst_push)
  qed
qed

lemma addSelectors_distinct:
  "addSelectors calls tab = Inr tab' \<Longrightarrow> distinct (map fst tab) \<Longrightarrow> distinct (map fst tab')"
proof (induction calls arbitrary: tab)
  case Nil
  then show ?case by simp
next
  case (Cons call calls)
  then show ?case
    by (auto split: sum.splits dest: addSelector_distinct)
qed

lemma collectSelectors_distinct:
  "collectSelectors h assoc base tab = Inr tab' \<Longrightarrow> distinct (map fst tab) \<Longrightarrow> distinct (map fst tab')"
  by (auto simp add: collectSelectors_def Let_def split: option.splits dest: addSelectors_distinct)

lemma outputRules_definitionRules:
  assumes "distinct (map fst tab)"
  shows "outputRules h fileIconsPath defs tab =
     concat (map (definitionRules h fileIconsPath defs tab) (map fst (forIn tab)))"
proof -
  have eq: "map (outputStep h fileIconsPath defs []) (forIn tab) =
        map (\<lambda>e. definitionRules h fileIconsPath defs tab (fst e)) (forIn tab)"
    using outputStep_definitionRules [OF assms] by (simp add: set_forIn)
  have "outputRules h fileIconsPath defs tab =
      concat (map (outputStep h fileIconsPath defs []) (forIn tab))"
    by (simp add: outputRules_def foldl_outputStep)
  also have "\<dots> = concat (map (\<lambda>e. definitionRules h fileIconsPath defs tab (fst e)) (forIn tab))"
    by (simp only: eq)
  also have "\<dots> = concat (map (definitionRules h fileIconsPath defs tab) (map fst (forIn tab)))"
    by (simp add: comp_def)
  finally show ?thesis .
qed

lemma addSelector_nonempty:
  assumes "addSelector selector defId tab = Inr tab'" "list_all (\<lambda>kv. snd kv \<noteq> []) tab"
  shows "list_all (\<lambda>kv. snd kv \<noteq> []) tab'"
  using assms
  by (auto simp add: addSelector_def list_all_iff split: if_splits option.splits)

lemma addSelectors_nonempty:
  "addSelectors calls tab = Inr tab' \<Longrightarrow> list_all (\<lambda>kv. snd kv \<noteq> []) tab \<Longrightarrow>
   list_all (\<lambda>kv. snd kv \<noteq> []) tab'"
proof (induction calls arbitrary: tab)
  case Nil
  then show ?case by simp
next
  case (Cons call calls)
  then show ?case
    by (auto split: sum.splits dest: addSelector_nonempty)
qed

lemma collectSelectors_nonempty:
  "collectSelectors h assoc base tab = Inr tab' \<Longrightarrow> list_all (\<lambda>kv. snd kv \<noteq> []) tab \<Longrightarrow>
   list_all (\<lambda>kv. snd kv \<noteq> []) tab'"
  by (auto simp add: collectSelectors_def Let_def split: option.splits dest: addSelectors_nonempty)

lemma processFileIconsObject_rules:
  assumes "iconDefinitions doc = Some defs"
    and "processFileIconsObject h iconSetId fileIconsPath doc = Inr css"
  shows "\<exists>tab. distinct (map fst tab) \<and> list_all (\<lambda>kv. snd kv \<noteq> []) tab \<and>
           css = join [CHR 0x0A]
             (concat (map (definitionRules h fileIconsPath defs tab) (map fst (forIn tab))))"
proof -
  from assms obtain t1 t2 t3
    where c1: "collectSelectors h (Some doc) None [] = Inr t1"
      and c2: "collectSelectors h (light doc) (Some ''.vs'') t1 = Inr t2"
      and c3: "collectSelectors h (highContrast doc) (Some ''.hc_black'') t2 = Inr t3"
      and css: "css = join [CHR 0x0A] (outputRules h fileIconsPath defs t3)"
    by (auto simp add: processFileIconsObject_def split: sum.splits)
  have "distinct (map fst t1)" using collectSelectors_distinct [OF c1] by simp
  then have "distinct (map fst t2)" using collectSelectors_distinct [OF c2] by simp
  then have d: "distinct (map fst t3)" using collectSelectors_distinct [OF c3] by simp
  have "list_all (\<lambda>kv. snd kv \<noteq> []) t1" using collectSelectors_nonempty [OF c1] by simp
  then have "list_all (\<lambda>kv. snd kv \<noteq> []) t2" using collectSelectors_nonempty [OF c2] by simp
  then have n: "list_all (\<lambda>kv. snd kv \<noteq> []) t3" using collectSelectors_nonempty [OF c3] by simp
  from css d n outputRules_definitionRules [OF d, of h fileIconsPath defs] show ?thesis
    by auto
qed

text \<open>
  C7. The output phase of the file icon compiler, for a table of accumulated selectors
  with distinct definition ids (as the collection phase builds it): the rules are those
  of the accumulated ids, each id visited once; an id gives no rule when it accumulated
  no selector, or has no entry in \<^verbatim>\<open>iconDefinitions\<close>, or its entry has no
  \<^verbatim>\<open>iconPath\<close> (none, or the empty string), and gives otherwise the one rule of all
  its selectors joined by a comma and a space, with the background image at the
  \<^verbatim>\<open>iconPath\<close> joined to the directory of the icon set's document.
\<close>

theorem output_one_rule_per_definition:
  assumes "distinct (map fst tab)"
  shows "outputRules h fileIconsPath defs tab =
           concat (map (definitionRules h fileIconsPath defs tab) (map fst (forIn tab))) \<and>
         mset (map fst (forIn tab)) = mset (map fst tab) \<and>
         (map_of tab defId = None \<or> map_of defs defId = None \<or>
            truthy (iconPath (the (map_of defs defId))) = False \<longleftrightarrow>
            definitionRules h fileIconsPath defs tab defId = []) \<and>
         (map_of tab defId = Some selectors \<and> map_of defs defId = Some d \<and> iconPath d = Some icon \<and> icon \<noteq> []
            \<longrightarrow> definitionRules h fileIconsPath defs tab defId =
                 [join '', '' selectors @ '' { background-image: url('' @ [CHR 0x22] @
                  joinPath h (dirname h fileIconsPath) icon @ [CHR 0x22] @ ''); }''])"
proof (intro conjI)
  show "outputRules h fileIconsPath defs tab =
           concat (map (definitionRules h fileIconsPath defs tab) (map fst (forIn tab)))"
    by (rule outputRules_definitionRules [OF assms])
  show "mset (map fst (forIn tab)) = mset (map fst tab)"
    using mset_forIn [of tab] by (metis mset_map)
  show "(map_of tab defId = None \<or> map_of defs defId = None \<or>
            truthy (iconPath (the (map_of defs defId))) = False) =
            (definitionRules h fileIconsPath defs tab defId = [])"
    by (auto simp add: definitionRules_def truthy_def split: option.splits)
  show "map_of tab defId = Some selectors \<and> map_of defs defId = Some d \<and> iconPath d = Some icon \<and> icon \<noteq> []
            \<longrightarrow> definitionRules h fileIconsPath defs tab defId =
                 [join '', '' selectors @ '' { background-image: url('' @ [CHR 0x22] @
                  joinPath h (dirname h fileIconsPath) icon @ [CHR 0x22] @ ''); }'']"
    by (simp add: definitionRules_def)
qed

theorem output_one_rule_per_definition_witness:
  "distinct (map fst [(''defA'', [''.x .folder-icon'', ''.x .file-icon'']), (''defB'', [''.x .b'']),
                      (''defC'', [''.x .c''])]) \<and>
   outputRules exampleHost ''/ext/icons/seti.json''
     [(''defA'', \<lparr> iconPath = Some ''a.svg'' \<rparr>), (''defC'', \<lparr> iconPath = None \<rparr>)]
     [(''defA'', [''.x .folder-icon'', ''.x .file-icon'']), (''defB'', [''.x .b'']),
      (''defC'', [''.x .c''])] =
   [''.x .folder-icon, .x .file-icon { background-image: url('' @ [CHR 0x22] @
    ''/ext/icons/a.svg'' @ [CHR 0x22] @ ''); }'']"
proof -
  let ?tab = "[(''defA'', [''.x .folder-icon'', ''.x .file-icon'']), (''defB'', [''.x .b'']),
              (''defC'', [''.x .c''])]"
  let ?defs = "[(''defA'', \<lparr> iconPath = Some ''a.svg'' \<rparr>), (''defC'', \<lparr> iconPath = None \<rparr>)]"
  have d: "distinct (map fst ?tab)" by simp
  from output_one_rule_per_definition [OF d, where h = exampleHost
      and fileIconsPath = "''/ext/icons/seti.json''" and defs = ?defs]
  have "outputRules exampleHost ''/ext/icons/seti.json'' ?defs ?tab =
      concat (map (definitionRules exampleHost ''/ext/icons/seti.json'' ?defs ?tab)
        (map fst (forIn ?tab)))" by blast
  also have "\<dots> = [''.x .folder-icon, .x .file-icon { background-image: url('' @ [CHR 0x22] @
      ''/ext/icons/a.svg'' @ [CHR 0x22] @ ''); }'']" by code_simp
  finally show ?thesis using d by blast
qed

subsection \<open>Activation\<close>

lemma findIndex_None: "findIndex P xs = None \<longleftrightarrow> (\<forall>x \<in> set xs. \<not> P x)"
  by (induction xs) auto

lemma findIndex_Some: "findIndex P xs = Some i \<Longrightarrow> i < length xs \<and> P (xs ! i)"
proof (induction xs arbitrary: i)
  case Nil
  then show ?case by simp
next
  case (Cons x xs)
  then show ?case by (auto split: if_splits)
qed

lemma serviceInvariant_iff:
  "serviceInvariant s \<longleftrightarrow>
     [] \<notin> theme_id ` set (knownThemes s) \<and>
     (\<forall>cur. currentTheme s = Some cur \<longrightarrow> cur \<in> theme_id ` set (knownThemes s))"
  by (auto simp add: serviceInvariant_def list_all_iff list_ex_iff image_iff split: option.splits)

lemma newThemeService_invariant: "serviceInvariant newThemeService"
  by (simp add: serviceInvariant_def newThemeService_def)

lemma onTheme_invariant:
  "serviceInvariant (fst st) \<Longrightarrow> serviceInvariant (fst (onTheme h dir extId st theme))"
  by (auto simp add: serviceInvariant_iff onTheme_def Let_def)

lemma onThemes_invariant:
  "serviceInvariant (fst st) \<Longrightarrow> serviceInvariant (fst (onThemes h dir extId themes st))"
proof (cases themes)
  case None
  then show "serviceInvariant (fst st) \<Longrightarrow> ?thesis" by (simp add: onThemes_def)
next
  case (Some ts)
  have "serviceInvariant (fst st) \<Longrightarrow> serviceInvariant (fst (foldl (onTheme h dir extId) st ts))"
    by (induction ts arbitrary: st) (simp_all add: onTheme_invariant)
  with Some show "serviceInvariant (fst st) \<Longrightarrow> ?thesis" by (simp add: onThemes_def)
qed

lemma onFileIconSet_themes:
  "knownThemes (fst (onFileIconSet h dir extId st x)) = knownThemes (fst st) \<and>
   currentTheme (fst (onFileIconSet h dir extId st x)) = currentTheme (fst st)"
  by (simp add: onFileIconSet_def Let_def)

lemma onFileIcons_invariant:
  "serviceInvariant (fst st) \<Longrightarrow> serviceInvariant (fst (onFileIcons h dir extId sets st))"
proof (cases sets)
  case None
  then show "serviceInvariant (fst st) \<Longrightarrow> ?thesis" by (simp add: onFileIcons_def)
next
  case (Some xs)
  have "serviceInvariant (fst st) \<Longrightarrow> serviceInvariant (fst (foldl (onFileIconSet h dir extId) st xs))"
  proof (induction xs arbitrary: st)
    case Nil
    then show ?case by simp
  next
    case (Cons x xs)
    from Cons.prems have "serviceInvariant (fst (onFileIconSet h dir extId st x))"
      by (simp add: serviceInvariant_iff onFileIconSet_themes)
    then show ?case using Cons.IH by simp
  qed
  with Some show "serviceInvariant (fst st) \<Longrightarrow> ?thesis" by (simp add: onFileIcons_def)
qed

lemma onApply_themes:
  "knownThemes (onApply h bc t s) = knownThemes s \<and>
   currentTheme (onApply h bc t s) = (if container s = None then currentTheme s else Some (theme_id t))"
  by (auto simp add: onApply_def Let_def sendTelemetry_def split: option.splits)

lemma applyRules_themes:
  "knownThemes (applyRules content cls s) = knownThemes s \<and>
   currentTheme (applyRules content cls s) = currentTheme s \<and>
   container (applyRules content cls s) = container s"
  by (simp add: applyRules_def)

lemma theme_ids_update:
  "i < length ts \<Longrightarrow>
   theme_id ` set (ts[i := (ts ! i) \<lparr> styleSheetContent := c \<rparr>]) = theme_id ` set ts"
proof -
  assume i: "i < length ts"
  have "map theme_id (ts[i := (ts ! i) \<lparr> styleSheetContent := c \<rparr>]) = map theme_id ts"
    using i by (simp add: map_update list_update_same_conv)
  then show ?thesis by (metis list.set_map)
qed

lemma applyTheme_invariant:
  assumes "serviceInvariant s" "i < length (knownThemes s)"
    and "applyTheme h fuel i (onApply h bc) s = Some (res, s')"
  shows "serviceInvariant s'"
proof -
  let ?t = "knownThemes s ! i"
  have known: "theme_id ?t \<in> theme_id ` set (knownThemes s)"
    using assms(2) by simp
  show ?thesis
  proof (cases "truthy (styleSheetContent ?t)")
    case True
    with assms(3) have "s' = onApply h bc ?t (applyRules (the (styleSheetContent ?t)) colorThemeRulesClassName s)"
      by (simp add: applyTheme_def Let_def)
    with assms(1) known show ?thesis
      by (simp add: serviceInvariant_iff onApply_themes applyRules_themes)
  next
    case False
    show ?thesis
    proof (cases "loadThemeDocument h fuel (path ?t)")
      case None
      with False assms(3) show ?thesis by (simp add: applyTheme_def Let_def)
    next
      case (Some r)
      show ?thesis
      proof (cases r)
        case (Inl e)
        with False Some assms(1,3) show ?thesis by (simp add: applyTheme_def Let_def)
      next
        case (Inr doc)
        show ?thesis
        proof (cases "processThemeObject h (theme_id ?t) doc")
          case (Inl e)
          with False Some \<open>r = Inr doc\<close> assms(1,3) show ?thesis by (simp add: applyTheme_def Let_def)
        next
          case (Inr content)
          with False Some \<open>r = Inr doc\<close> assms(3)
          have "s' = onApply h bc (?t \<lparr> styleSheetContent := Some content \<rparr>)
              (applyRules content colorThemeRulesClassName
                (s \<lparr> knownThemes := (knownThemes s)[i := ?t \<lparr> styleSheetContent := Some content \<rparr>] \<rparr>))"
            by (simp add: applyTheme_def Let_def)
          with assms(1) known theme_ids_update [OF assms(2)] show ?thesis
            by (simp add: serviceInvariant_iff onApply_themes applyRules_themes)
        qed
      qed
    qed
  qed
qed

lemma setColorTheme_invariant:
  assumes "serviceInvariant s" and "setColorTheme h fuel themeId bc s = Some (res, s')"
  shows "serviceInvariant s'"
proof (cases "themeId = [] \<or> Some themeId = currentTheme s")
  case True
  with assms show ?thesis
    by (auto simp add: setColorTheme_def serviceInvariant_iff split: if_splits)
next
  case False
  show ?thesis
  proof (cases "findThemeData s (validateThemeId themeId) (Some DEFAULT_THEME_ID)")
    case None
    with False assms show ?thesis by (simp add: setColorTheme_def applyThemeCSS_def)
  next
    case (Some i)
    then have "i < length (knownThemes s)"
      by (auto simp add: findThemeData_def split: option.splits if_splits dest: findIndex_Some)
    moreover from False Some assms(2) have "applyTheme h fuel i (onApply h bc) s = Some (res, s')"
      by (simp add: setColorTheme_def applyThemeCSS_def)
    ultimately show ?thesis using assms(1) by (blast intro: applyTheme_invariant)
  qed
qed

lemma setFileIcons_invariant:
  assumes "serviceInvariant s" and "setFileIcons h fileIcons s = (res, s')"
  shows "serviceInvariant s'"
proof -
  have "knownThemes s' = knownThemes s \<and> currentTheme s' = currentTheme s"
    using assms(2)
    by (auto simp add: setFileIcons_def updateFileIcons_def applyFileIcons_def Let_def applyRules_def
        split: if_splits option.splits sum.splits)
  with assms(1) show ?thesis by (simp add: serviceInvariant_iff)
qed

lemma initialize_invariant:
  assumes "serviceInvariant s" and "initialize h fuel classes s = Some (res, s')"
  shows "serviceInvariant s'"
proof -
  have i1: "serviceInvariant (s \<lparr> container := Some classes \<rparr>)"
    using assms(1) by (simp add: serviceInvariant_iff)
  have i2: "serviceInvariant (s \<lparr> container := Some classes, storage := st \<rparr>)" for st
    using assms(1) by (simp add: serviceInvariant_iff)
  from assms(2) show ?thesis
    by (auto simp add: initialize_def Let_def split: if_splits
        dest: setColorTheme_invariant [OF i1] setColorTheme_invariant [OF i2])
qed

lemma applyTheme_load_fails:
  assumes "\<not> truthy (styleSheetContent (knownThemes s ! i))"
    and "loadThemeDocument h fuel (path (knownThemes s ! i)) = Some (Inl e)"
  shows "applyTheme h fuel i onApp s = Some (Inl (LoadError (path (knownThemes s ! i))), s)"
  using assms by (simp add: applyTheme_def Let_def)

lemma setColorTheme_load_fails:
  assumes "themeId \<noteq> []" "Some themeId \<noteq> currentTheme s"
    and "findThemeData s (validateThemeId themeId) (Some DEFAULT_THEME_ID) = Some i"
    and "\<not> truthy (styleSheetContent (knownThemes s ! i))"
    and "loadThemeDocument h fuel (path (knownThemes s ! i)) = Some (Inl e)"
  shows "setColorTheme h fuel themeId broadcastToAllWindows s =
     Some (Inl (LoadError (path (knownThemes s ! i))), s)"
  using assms by (simp add: setColorTheme_def applyThemeCSS_def applyTheme_load_fails)

lemma applyFileIcons_load_fails:
  assumes "\<not> truthy (styleSheetContent (knownFileIconContributions s ! i))"
    and "loadFileIconsDocument h (path (knownFileIconContributions s ! i)) = Inl e"
  shows "applyFileIcons h i s = (Inl (LoadError (path (knownFileIconContributions s ! i))), s)"
  using assms by (simp add: applyFileIcons_def Let_def)

lemma setFileIcons_load_fails:
  assumes "fileIcons \<noteq> currentFileIcons s"
    and "findIconSet fileIcons (knownFileIconContributions s) 0 None = Some i"
    and "\<not> truthy (styleSheetContent (knownFileIconContributions s ! i))"
    and "loadFileIconsDocument h (path (knownFileIconContributions s ! i)) = Inl e"
  shows "setFileIcons h fileIcons s =
     (Inl (LoadError (path (knownFileIconContributions s ! i))), s \<lparr> currentFileIcons := fileIcons \<rparr>)"
  using assms by (simp add: setFileIcons_def updateFileIcons_def applyFileIcons_def Let_def)

lemma setColorTheme_rejected:
  "setColorTheme h fuel themeId bc s = Some (Inl e, s') \<Longrightarrow> s' = s"
  by (auto simp add: setColorTheme_def applyThemeCSS_def applyTheme_def Let_def
      split: if_splits option.splits sum.splits)

lemma setFileIcons_rejected:
  "setFileIcons h fileIcons s = (Inl e, s') \<Longrightarrow> s' = s \<lparr> currentFileIcons := fileIcons \<rparr>"
  by (auto simp add: setFileIcons_def updateFileIcons_def applyFileIcons_def Let_def
      split: if_splits option.splits sum.splits)

text \<open>
  C10. In a state of the service (the active id is the id of a registered theme, which
  is never empty), a call with the active id returns success whatever the files and
  the fuel are, so without a load or a compilation, and the state it returns is the state
  it was given, with the id appended to the broadcast messages when, and only when, the
  flag is set.
\<close>

theorem setColorTheme_same_id:
  assumes "serviceInvariant s" and "currentTheme s = Some themeId"
  shows "setColorTheme h fuel themeId broadcastToAllWindows s =
           Some (Inr True,
                 if broadcastToAllWindows
                 then s \<lparr> broadcasts := broadcasts s @ [(THEME_CHANNEL, themeId)] \<rparr>
                 else s)"
proof -
  from assms have "themeId \<noteq> []" by (auto simp add: serviceInvariant_iff image_iff)
  with assms(2) show ?thesis by (simp add: setColorTheme_def)
qed

theorem setColorTheme_same_id_witness:
  "serviceInvariant
     (exampleService \<lparr> currentTheme := Some ''vs vscode-theme-defaults-themes-light_vs-json'' \<rparr>) \<and>
   setColorTheme exampleHost 0 ''vs vscode-theme-defaults-themes-light_vs-json'' True
     (exampleService \<lparr> currentTheme := Some ''vs vscode-theme-defaults-themes-light_vs-json'' \<rparr>) =
     Some (Inr True,
           exampleService \<lparr> currentTheme := Some ''vs vscode-theme-defaults-themes-light_vs-json'',
             broadcasts := [(THEME_CHANNEL, ''vs vscode-theme-defaults-themes-light_vs-json'')] \<rparr>) \<and>
   setColorTheme exampleHost 0 ''vs vscode-theme-defaults-themes-light_vs-json'' False
     (exampleService \<lparr> currentTheme := Some ''vs vscode-theme-defaults-themes-light_vs-json'' \<rparr>) =
     Some (Inr True,
           exampleService \<lparr> currentTheme := Some ''vs vscode-theme-defaults-themes-light_vs-json'' \<rparr>)"
proof -
  let ?s = "exampleService \<lparr> currentTheme := Some ''vs vscode-theme-defaults-themes-light_vs-json'' \<rparr>"
  have i: "serviceInvariant ?s"
    by (simp add: serviceInvariant_def exampleService_def)
  have c: "currentTheme ?s = Some ''vs vscode-theme-defaults-themes-light_vs-json''" by simp
  have b: "broadcasts ?s = []" by (simp add: exampleService_def)
  from setColorTheme_same_id [OF i c, of exampleHost 0 True]
    setColorTheme_same_id [OF i c, of exampleHost 0 False]
  show ?thesis using i b by simp
qed

text \<open>
  C9, as amended. In a state of the service, when the requested id, its migrated form
  (\<^verbatim>\<open>validateThemeId\<close>) and the default id are the id of no registered theme, the
  activation returns \<^verbatim>\<open>false\<close>, whatever the files and the fuel are, and returns the
  state it was given: no field is changed and nothing is thrown.
\<close>

theorem setColorTheme_unknown_id:
  assumes "serviceInvariant s"
    and "\<forall>t \<in> set (knownThemes s). theme_id t \<noteq> themeId"
    and "\<forall>t \<in> set (knownThemes s). theme_id t \<noteq> validateThemeId themeId"
    and "\<forall>t \<in> set (knownThemes s). theme_id t \<noteq> DEFAULT_THEME_ID"
  shows "setColorTheme h fuel themeId broadcastToAllWindows s = Some (Inr False, s)"
proof -
  have "Some themeId \<noteq> currentTheme s"
  proof
    assume "Some themeId = currentTheme s"
    then have "currentTheme s = Some themeId" by simp
    with assms(1) obtain t where "t \<in> set (knownThemes s)" and "theme_id t = themeId"
      by (auto simp add: serviceInvariant_iff image_iff)
    with assms(2) show False by blast
  qed
  moreover have "findIndex (\<lambda>t. theme_id t = validateThemeId themeId) (knownThemes s) = None"
    using assms(3) by (simp add: findIndex_None)
  moreover have "findIndex (\<lambda>t. theme_id t = DEFAULT_THEME_ID) (knownThemes s) = None"
    using assms(4) by (simp add: findIndex_None)
  ultimately have "Some themeId \<noteq> currentTheme s"
    and "findThemeData s (validateThemeId themeId) (Some DEFAULT_THEME_ID) = None"
    by (simp_all add: findThemeData_def)
  then show ?thesis
    by (simp add: setColorTheme_def applyThemeCSS_def)
qed

theorem setColorTheme_unknown_id_witness:
  "serviceInvariant exampleService \<and>
   list_all (\<lambda>t. theme_id t \<noteq> ''my theme'') (knownThemes exampleService) \<and>
   list_all (\<lambda>t. theme_id t \<noteq> validateThemeId ''my theme'') (knownThemes exampleService) \<and>
   list_all (\<lambda>t. theme_id t \<noteq> DEFAULT_THEME_ID) (knownThemes exampleService) \<and>
   setColorTheme exampleHost 0 ''my theme'' True exampleService = Some (Inr False, exampleService)"
proof -
  have i: "serviceInvariant exampleService"
    by (simp add: serviceInvariant_def exampleService_def)
  have h1: "\<forall>t \<in> set (knownThemes exampleService). theme_id t \<noteq> ''my theme''"
    by (simp add: exampleService_def)
  have h2: "\<forall>t \<in> set (knownThemes exampleService). theme_id t \<noteq> validateThemeId ''my theme''"
    by (simp add: exampleService_def validateThemeId_def)
  have h3: "\<forall>t \<in> set (knownThemes exampleService). theme_id t \<noteq> DEFAULT_THEME_ID"
    by (simp add: exampleService_def DEFAULT_THEME_ID_def)
  from setColorTheme_unknown_id [OF i h1 h2 h3, of exampleHost 0 True]
  show ?thesis using i h1 h2 h3 by (simp add: list_all_iff)
qed

text \<open>
  C9 as stated fails for a legacy id: \<^verbatim>\<open>vs\<close> is the id of no registered theme, and
  neither is the default id, yet the activation succeeds, since the id is first migrated
  to the id of the registered light theme; the active id, the stored preference and the
  installed style sheet all change.
\<close>

theorem setColorTheme_legacy_id_counterexample:
  "list_all (\<lambda>t. theme_id t \<noteq> ''vs'') (knownThemes exampleService) \<and>
   list_all (\<lambda>t. theme_id t \<noteq> DEFAULT_THEME_ID) (knownThemes exampleService) \<and>
   currentTheme exampleService = None \<and>
   map_option fst (setColorTheme exampleHost 2 ''vs'' False exampleService) = Some (Inr True) \<and>
   map_option (currentTheme \<circ> snd) (setColorTheme exampleHost 2 ''vs'' False exampleService) =
     Some (Some ''vs vscode-theme-defaults-themes-light_vs-json'') \<and>
   map_option (storage \<circ> snd) (setColorTheme exampleHost 2 ''vs'' False exampleService) =
     Some [(THEME_PREF, ''vs vscode-theme-defaults-themes-light_vs-json'')] \<and>
   map_option (headStyles \<circ> snd) (setColorTheme exampleHost 2 ''vs'' False exampleService) =
     Some [(fileIconRulesClassName, ''OLD''),
           (colorThemeRulesClassName,
            ''.monaco-editor.vs.vscode-theme-defaults-themes-light_vs-json .token { color: rgba(0, 0, 0, 1); }'')]"
  by code_simp

text \<open>
  C8, at the failing input. The stored icon set \<^verbatim>\<open>new-icons\<close> is registered with a
  file that cannot be read. Its activation is rejected and the installed style sheet is
  still the old one, but \<^verbatim>\<open>currentFileIcons\<close> is already \<^verbatim>\<open>new-icons\<close>; the same
  request made again finds nothing to do and reports success. (For a color theme the
  rejected activation returns the state unchanged: \<open>setColorTheme_rejected\<close>.)
\<close>

theorem setFileIcons_failed_load_changes_id:
  "readFile exampleHost ''/ext/icons/missing.json'' = None \<and>
   currentFileIcons exampleService = IconSet ''old-icons'' \<and>
   setFileIcons exampleHost (IconSet ''new-icons'') exampleService =
     (Inl (LoadError ''/ext/icons/missing.json''),
      exampleService \<lparr> currentFileIcons := IconSet ''new-icons'' \<rparr>) \<and>
   setFileIcons exampleHost (IconSet ''new-icons'')
     (exampleService \<lparr> currentFileIcons := IconSet ''new-icons'' \<rparr>) =
     (Inr True, exampleService \<lparr> currentFileIcons := IconSet ''new-icons'' \<rparr>) \<and>
   headStyles (exampleService \<lparr> currentFileIcons := IconSet ''new-icons'' \<rparr>) =
     [(fileIconRulesClassName, ''OLD'')]"
  by code_simp

end
